theory Spec2Isabelle
  imports Complex_Main
begin

section \<open>Numbers\<close>

text \<open>
  The Python sources compute with floats. A Python number is modelled by the real number
  it denotes. The tax calculator, the two simulators and four of the five detectors of the
  analyzer are modelled in exact arithmetic: the statements about them are about the
  arithmetic the source writes down. The emergency-fund detector is the one whose
  thresholds a statement below fixes exactly, and there the rounding of every float
  operation is part of the model. A Python int behaves as the float of the same value as
  long as the sums and products stay below \<open>2 ^ 53\<close>.
\<close>

subsection \<open>Binary64 rounding\<close>

text \<open>
  Rounding to the nearest integer, and to the even one of the two when both are equally
  close.
\<close>

definition round_half_even :: "real \<Rightarrow> int" where
  "round_half_even y =
     (let f = \<lfloor>y\<rfloor>;
          d = y - of_int f
      in if d < 1 / 2 then f
         else if d > 1 / 2 then f + 1
         else if even f then f else f + 1)"

text \<open>
  A Python float is an IEEE 754 binary64 number: a significand of 53 bits and an exponent
  of at least -1022, below which the numbers are subnormal and keep the spacing of the
  smallest exponent. The result of a float operation is the exact result rounded to the
  nearest such number, ties to the even significand. Overflow to infinity is not
  modelled: above the largest float the rounding goes on with larger exponents.
\<close>

definition float_exponent :: "real \<Rightarrow> int" where
  "float_exponent x = max (- 1022) \<lfloor>log 2 \<bar>x\<bar>\<rfloor>"

definition float_round :: "real \<Rightarrow> real" where
  "float_round x =
     (if x = 0 then 0
      else (let ulp = 2 powi (float_exponent x - 52)
            in of_int (round_half_even (x / ulp)) * ulp))"

section \<open>TaxCalculator (src/src/tax_calculator.py)\<close>

subsection \<open>Configuration set up by the constructor\<close>

text \<open>
  A bracket is the triple (lower, upper, rate) of the source. The last bracket's upper
  bound is \<^verbatim>\<open>float('inf')\<close>; it is modelled as \<open>None\<close>.
\<close>

type_synonym bracket = "real \<times> real option \<times> real"

definition federal_brackets :: "bracket list" where
  "federal_brackets =
     [(0, Some 11000, 10 / 100),
      (11000, Some 44725, 12 / 100),
      (44725, Some 95375, 22 / 100),
      (95375, Some 182100, 24 / 100),
      (182100, Some 231250, 32 / 100),
      (231250, Some 578125, 35 / 100),
      (578125, None, 37 / 100)]"

definition standard_deduction :: real where
  "standard_deduction = 13850"

definition social_security_rate :: real where
  "social_security_rate = 62 / 1000"

definition social_security_cap :: real where
  "social_security_cap = 160200"

definition medicare_rate :: real where
  "medicare_rate = 145 / 10000"

definition additional_medicare_rate :: real where
  "additional_medicare_rate = 9 / 1000"

definition additional_medicare_threshold :: real where
  "additional_medicare_threshold = 200000"

definition ira_limit :: real where
  "ira_limit = 6500"

definition roth_ira_limit :: real where
  "roth_ira_limit = 153000"

definition roth_ira_phaseout :: real where
  "roth_ira_phaseout = 228000"

subsection \<open>calculate_federal_income_tax\<close>

text \<open>
  \<^verbatim>\<open>bracket_income = min(taxable_income - lower, upper - lower)\<close>; with an infinite
  upper bound the second argument of \<open>min\<close> is infinite and the first is returned.
\<close>

definition bracket_income :: "real \<Rightarrow> real \<Rightarrow> real option \<Rightarrow> real" where
  "bracket_income taxable_income lower upper =
     (case upper of
        None \<Rightarrow> taxable_income - lower
      | Some u \<Rightarrow> min (taxable_income - lower) (u - lower))"

text \<open>
  The \<^verbatim>\<open>for lower, upper, rate in self.federal_brackets\<close> loop: the accumulator
  \<open>tax\<close> is threaded through, and \<^verbatim>\<open>break\<close> returns it at the first bracket whose
  lower bound the taxable income does not exceed.
\<close>

fun bracket_loop :: "real \<Rightarrow> bracket list \<Rightarrow> real \<Rightarrow> real" where
  "bracket_loop taxable_income [] tax = tax"
| "bracket_loop taxable_income ((lower, upper, rate) # rest) tax =
     (if taxable_income > lower
      then bracket_loop taxable_income rest
             (tax + bracket_income taxable_income lower upper * rate)
      else tax)"

text \<open>The optional argument \<open>deductions\<close> is \<open>None\<close> when the caller leaves it out.\<close>

definition calculate_federal_income_tax :: "real \<Rightarrow> real option \<Rightarrow> real" where
  "calculate_federal_income_tax annual_income deductions =
     (let deductions' = (case deductions of None \<Rightarrow> standard_deduction | Some d \<Rightarrow> d);
          taxable_income = max 0 (annual_income - deductions')
      in bracket_loop taxable_income federal_brackets 0)"

subsection \<open>calculate_fica_taxes\<close>

record fica_taxes =
  social_security :: real
  medicare :: real
  total_fica :: real

definition calculate_fica_taxes :: "real \<Rightarrow> fica_taxes" where
  "calculate_fica_taxes annual_income =
     (let ss_taxable_income = min annual_income social_security_cap;
          social_security_tax = ss_taxable_income * social_security_rate;
          basic_medicare_tax = annual_income * medicare_rate;
          additional_medicare_tax =
            (if annual_income > additional_medicare_threshold
             then (annual_income - additional_medicare_threshold) * additional_medicare_rate
             else 0);
          total_medicare_tax = basic_medicare_tax + additional_medicare_tax
      in \<lparr>social_security = social_security_tax,
          medicare = total_medicare_tax,
          total_fica = social_security_tax + total_medicare_tax\<rparr>)"

subsection \<open>Retirement contributions\<close>

definition check_roth_contribution_limit :: "real \<Rightarrow> real \<Rightarrow> real" where
  "check_roth_contribution_limit annual_income proposed_contribution =
     (if annual_income \<le> roth_ira_limit
      then min proposed_contribution ira_limit
      else if annual_income < roth_ira_phaseout
      then (let phase_out_range = roth_ira_phaseout - roth_ira_limit;
                phase_out_percent = (roth_ira_phaseout - annual_income) / phase_out_range;
                allowed = phase_out_percent * ira_limit
            in min proposed_contribution allowed)
      else 0)"

text \<open>\<^verbatim>\<open>str.lower()\<close> on the ASCII letters.\<close>

definition lower_char :: "char \<Rightarrow> char" where
  "lower_char c =
     (let n = (of_char c :: nat)
      in if 65 \<le> n \<and> n \<le> 90 then char_of (n + 32) else c)"

definition str_lower :: "string \<Rightarrow> string" where
  "str_lower s = map lower_char s"

text \<open>The two shapes of dictionary the function returns.\<close>

datatype tax_savings =
  Roth_savings (current_year_tax_savings : real) (contribution_allowed : real)
| Traditional_savings (current_year_tax_savings : real)
    (effective_contribution_cost : real) (tax_savings_rate : real)

definition calculate_retirement_contribution_tax_savings ::
  "real \<Rightarrow> real \<Rightarrow> string \<Rightarrow> tax_savings" where
  "calculate_retirement_contribution_tax_savings annual_income contribution
       retirement_account_type =
     (if str_lower retirement_account_type = ''roth''
      then Roth_savings 0 (check_roth_contribution_limit annual_income contribution)
      else
        (let tax_without_contribution = calculate_federal_income_tax annual_income None;
             tax_with_contribution =
               calculate_federal_income_tax (annual_income - contribution) None;
             tax_savings = tax_without_contribution - tax_with_contribution
         in Traditional_savings tax_savings (contribution - tax_savings)
              (if contribution > 0 then tax_savings / contribution else 0)))"

subsection \<open>The marginal computation as the specification words it\<close>

text \<open>
  The income falling within a bracket is the part of the taxable income between the
  bracket's bounds, and the tax is the sum of those parts, each times its bracket's rate.
\<close>

definition income_within :: "real \<Rightarrow> real \<Rightarrow> real option \<Rightarrow> real" where
  "income_within taxable_income lower upper =
     max 0 ((case upper of None \<Rightarrow> taxable_income | Some u \<Rightarrow> min taxable_income u) - lower)"

definition marginal_tax_spec :: "bracket list \<Rightarrow> real \<Rightarrow> real" where
  "marginal_tax_spec brackets taxable_income =
     (\<Sum>(lower, upper, rate) \<leftarrow> brackets. income_within taxable_income lower upper * rate)"

text \<open>
  A table is ascending when every bracket's bounds are in order and no later bracket
  starts below an earlier bracket's lower bound.
\<close>

fun ascending :: "bracket list \<Rightarrow> bool" where
  "ascending [] = True"
| "ascending ((lower, upper, rate) # rest) =
     ((case upper of None \<Rightarrow> True | Some u \<Rightarrow> lower \<le> u)
      \<and> list_all (\<lambda>(l, u, r). lower \<le> l) rest
      \<and> ascending rest)"

section \<open>Python values, profiles and exceptions\<close>

text \<open>
  A profile is a Python dictionary from field names to numbers or strings. It is modelled
  by the list of its items in insertion order; a dictionary has no two items with the same
  key. An exception that leaves a function is the \<open>Inl\<close> value of its result.
\<close>

datatype error = KeyError string | TypeError | ValueError string | IndexError

datatype pval = Num real | Str string

type_synonym profile = "(string \<times> pval) list"

text \<open>\<^verbatim>\<open>profile[key]\<close>, \<^verbatim>\<open>profile.get(key, default)\<close> and \<^verbatim>\<open>key in profile\<close>.\<close>

definition getitem :: "profile \<Rightarrow> string \<Rightarrow> error + pval" where
  "getitem profile key =
     (case map_of profile key of None \<Rightarrow> Inl (KeyError key) | Some v \<Rightarrow> Inr v)"

definition get_default :: "profile \<Rightarrow> string \<Rightarrow> pval \<Rightarrow> pval" where
  "get_default profile key dflt =
     (case map_of profile key of None \<Rightarrow> dflt | Some v \<Rightarrow> v)"

definition contains :: "profile \<Rightarrow> string \<Rightarrow> bool" where
  "contains profile key = (map_of profile key \<noteq> None)"

definition startswith :: "string \<Rightarrow> string \<Rightarrow> bool" where
  "startswith k pre = (take (length pre) k = pre)"

text \<open>
  Arithmetic and ordering comparisons with a number raise \<^verbatim>\<open>TypeError\<close> on a string
  operand.
\<close>

definition as_num :: "pval \<Rightarrow> error + real" where
  "as_num v = (case v of Num x \<Rightarrow> Inr x | Str s \<Rightarrow> Inl TypeError)"

definition bind :: "error + 'a \<Rightarrow> ('a \<Rightarrow> error + 'b) \<Rightarrow> error + 'b" where
  "bind m f = (case m of Inl e \<Rightarrow> Inl e | Inr x \<Rightarrow> f x)"

text \<open>
  \<^verbatim>\<open>sum([v for k, v in profile.items() if k.startswith('expense_')])\<close>: the
  built-in \<open>sum\<close> starts from 0 and adds the elements from left to right.
\<close>

fun py_sum :: "pval list \<Rightarrow> real \<Rightarrow> error + real" where
  "py_sum [] acc = Inr acc"
| "py_sum (v # vs) acc = bind (as_num v) (\<lambda>x. py_sum vs (acc + x))"

definition expense_values :: "profile \<Rightarrow> pval list" where
  "expense_values profile = map snd (filter (\<lambda>(k, v). startswith k ''expense_'') profile)"

definition sum_expenses :: "profile \<Rightarrow> error + real" where
  "sum_expenses profile = py_sum (expense_values profile) 0"

text \<open>
  The same sum with every addition rounded as a float addition, for the emergency-fund
  detector.
\<close>

fun float_py_sum :: "pval list \<Rightarrow> real \<Rightarrow> error + real" where
  "float_py_sum [] acc = Inr acc"
| "float_py_sum (v # vs) acc = bind (as_num v) (\<lambda>x. float_py_sum vs (float_round (acc + x)))"

definition float_sum_expenses :: "profile \<Rightarrow> error + real" where
  "float_sum_expenses profile = float_py_sum (expense_values profile) 0"

text \<open>
  \<^verbatim>\<open>round(x, ndigits)\<close> of a float \<open>x\<close>: the exact value of \<open>x\<close> is rounded to the
  closest multiple of \<open>10 ^ - ndigits\<close>, to the even one of the two when both are equally
  close, and the result is the float nearest to that decimal.
\<close>

definition py_round :: "real \<Rightarrow> nat \<Rightarrow> real" where
  "py_round x ndigits =
     float_round (of_int (round_half_even (x * 10 ^ ndigits)) / 10 ^ ndigits)"

text \<open>
  Any Python object the analyzer may be handed. Its truth value is that of Python:
  \<^verbatim>\<open>None\<close>, zero and the empty string, list and dictionary are false. \<open>PyFrame\<close>
  stands for the objects of the two libraries the module imports whose truth value is
  refused: for a pandas Series or DataFrame and for a numpy array of several elements,
  \<^verbatim>\<open>not profile\<close> raises \<^verbatim>\<open>ValueError\<close>.
\<close>

datatype pyobj =
  PyNone | PyNum real | PyStr string | PyList "pval list" | PyDict profile
| PyFrame "pval list"

fun truthy :: "pyobj \<Rightarrow> error + bool" where
  "truthy PyNone = Inr False"
| "truthy (PyNum x) = Inr (x \<noteq> 0)"
| "truthy (PyStr s) = Inr (s \<noteq> [])"
| "truthy (PyList xs) = Inr (xs \<noteq> [])"
| "truthy (PyDict d) = Inr (d \<noteq> [])"
| "truthy (PyFrame xs) = Inl (ValueError ''The truth value is ambiguous'')"

fun isinstance_dict :: "pyobj \<Rightarrow> bool" where
  "isinstance_dict (PyDict d) = True"
| "isinstance_dict _ = False"

text \<open>
  The FinancialProfile of the data model: the required fields \<open>monthly_income\<close> and
  \<open>current_savings\<close> hold nonnegative numbers, every \<open>expense_\<close> field holds a
  nonnegative number, and the optional fields \<open>total_debt\<close> and \<open>primary_debt_apr\<close>
  hold nonnegative numbers where they are present.
\<close>

definition nonneg_num :: "pval \<Rightarrow> bool" where
  "nonneg_num v = (case v of Num x \<Rightarrow> 0 \<le> x | Str s \<Rightarrow> False)"

definition optional_nonneg :: "profile \<Rightarrow> string \<Rightarrow> bool" where
  "optional_nonneg profile key =
     (case map_of profile key of None \<Rightarrow> True | Some v \<Rightarrow> nonneg_num v)"

definition well_formed :: "profile \<Rightarrow> bool" where
  "well_formed profile =
     (distinct (map fst profile)
      \<and> (case map_of profile ''monthly_income'' of None \<Rightarrow> False | Some v \<Rightarrow> nonneg_num v)
      \<and> (case map_of profile ''current_savings'' of None \<Rightarrow> False | Some v \<Rightarrow> nonneg_num v)
      \<and> list_all nonneg_num (expense_values profile)
      \<and> optional_nonneg profile ''total_debt''
      \<and> optional_nonneg profile ''primary_debt_apr'')"

section \<open>FinancialAnalyzer (src/src/analyzer.py)\<close>

text \<open>
  An issue is the dictionary a detector returns. The \<open>details\<close> text is an f-string; it
  is kept as its fragments: literal text, a value printed as it is (\<^verbatim>\<open>{x}\<close>) and a
  number printed with one decimal (\<^verbatim>\<open>{x:.1f}\<close>).
\<close>

datatype fragment = Txt string | Shown pval | Fixed1 real

record issue =
  issue :: string
  severity :: string
  details :: "fragment list"
  recommendation :: string

text \<open>
  The emergency-fund detector, in float arithmetic: the sum of the expenses, the product
  with 3 and the quotient are each rounded to a float.
\<close>

definition check_emergency_fund :: "profile \<Rightarrow> error + issue option" where
  "check_emergency_fund profile =
     bind (float_sum_expenses profile) (\<lambda>monthly_expenses.
       let current_savings = get_default profile ''current_savings'' (Num 0);
           min_recommended = float_round (monthly_expenses * 3)
       in bind (as_num current_savings) (\<lambda>savings.
            if savings < min_recommended
            then (let months_saved =
                        (if monthly_expenses > 0
                         then py_round (float_round (savings / monthly_expenses)) 1
                         else 0)
                  in Inr (Some
                       \<lparr>issue = ''Insufficient emergency fund'',
                        severity = (if months_saved < 1 then ''high'' else ''medium''),
                        details =
                          [Txt ''Current savings cover only '', Shown (Num months_saved),
                           Txt '' months of expenses instead of recommended 3-6 months''],
                        recommendation = ''Increase monthly savings allocation until emergency fund reaches 3-6 months of expenses''\<rparr>))
            else Inr None))"

definition check_debt_to_income :: "profile \<Rightarrow> error + issue option" where
  "check_debt_to_income profile =
     (let monthly_income = get_default profile ''monthly_income'' (Num 0);
          debt_payments = get_default profile ''expense_debt_payments'' (Num 0)
      in bind (as_num monthly_income) (\<lambda>income.
           if income > 0
           then bind (as_num debt_payments) (\<lambda>payments.
                  let dti_ratio = (payments / income) * 100
                  in if dti_ratio > 36
                     then Inr (Some
                       \<lparr>issue = ''High debt-to-income ratio'',
                        severity = (if dti_ratio > 50 then ''high'' else ''medium''),
                        details =
                          [Txt ''Debt payments consume '', Fixed1 dti_ratio,
                           Txt ''% of income (recommended: <36%)''],
                        recommendation = ''Focus on paying down high-interest debt and avoid taking on new debt''\<rparr>)
                     else Inr None)
           else Inr None))"

definition check_expense_ratio :: "profile \<Rightarrow> error + issue option" where
  "check_expense_ratio profile =
     bind (sum_expenses profile) (\<lambda>monthly_expenses.
       let monthly_income = get_default profile ''monthly_income'' (Num 0)
       in if monthly_income = Num 0
          then Inr (Some
                 \<lparr>issue = ''Missing income information'',
                  severity = ''high'',
                  details = [Txt ''No monthly income data provided''],
                  recommendation = ''Ensure accurate monthly income is entered to assess financial health''\<rparr>)
          else bind (as_num monthly_income) (\<lambda>income.
                 let expense_ratio = (monthly_expenses / income) * 100
                 in if expense_ratio > 90
                    then Inr (Some
                      \<lparr>issue = ''Excessive expenses'',
                       severity = ''high'',
                       details =
                         [Txt ''Expenses consume '', Fixed1 expense_ratio,
                          Txt ''% of income, leaving little room for savings''],
                       recommendation = ''Review budget to identify areas for reduction, especially discretionary spending''\<rparr>)
                    else if expense_ratio > 80
                    then Inr (Some
                      \<lparr>issue = ''High expenses'',
                       severity = ''medium'',
                       details =
                         [Txt ''Expenses consume '', Fixed1 expense_ratio, Txt ''% of income''],
                       recommendation = ''Consider the 50/30/20 rule: 50% needs, 30% wants, 20% savings/debt repayment''\<rparr>)
                    else Inr None))"

text \<open>
  The one detector that reads \<^verbatim>\<open>profile['monthly_income']\<close> by subscript: a
  profile without the key raises \<^verbatim>\<open>KeyError\<close> here.
\<close>

definition check_savings_rate :: "profile \<Rightarrow> error + issue option" where
  "check_savings_rate profile =
     bind (getitem profile ''monthly_income'') (\<lambda>monthly_income.
     bind (if contains profile ''monthly_savings''
           then getitem profile ''monthly_savings''
           else bind (sum_expenses profile) (\<lambda>monthly_expenses.
                bind (as_num monthly_income) (\<lambda>income.
                  Inr (Num (income - monthly_expenses))))) (\<lambda>monthly_savings.
     bind (as_num monthly_income) (\<lambda>income.
     bind (if income > 0
           then bind (as_num monthly_savings) (\<lambda>savings. Inr ((savings / income) * 100))
           else Inr 0) (\<lambda>savings_rate.
       if savings_rate < 10
       then Inr (Some
              \<lparr>issue = ''Low savings rate'',
               severity = (if savings_rate > 0 then ''medium'' else ''high''),
               details =
                 [Txt ''Current savings rate is '', Fixed1 savings_rate,
                  Txt ''% (recommended: at least 15-20%)''],
               recommendation = ''Aim to increase savings rate by reducing discretionary spending''\<rparr>)
       else Inr None))))"

definition check_high_interest_debt :: "profile \<Rightarrow> error + issue option" where
  "check_high_interest_debt profile =
     (let primary_debt_type = get_default profile ''primary_debt_type'' (Str ''None'');
          primary_debt_apr = get_default profile ''primary_debt_apr'' (Num 0)
      in if primary_debt_type \<noteq> Str ''None''
         then bind (as_num primary_debt_apr) (\<lambda>apr.
                if apr > 10
                then Inr (Some
                       \<lparr>issue = ''High-interest debt'',
                        severity = (if apr > 20 then ''high'' else ''medium''),
                        details =
                          [Txt ''Your '', Shown primary_debt_type,
                           Txt '' has a high APR of '', Shown primary_debt_apr, Txt ''%''],
                        recommendation = ''Prioritize paying off high-interest debt before focusing on other financial goals''\<rparr>)
                else Inr None)
         else Inr None)"

definition issue_detectors :: "(profile \<Rightarrow> error + issue option) list" where
  "issue_detectors =
     [check_emergency_fund, check_debt_to_income, check_expense_ratio,
      check_savings_rate, check_high_interest_debt]"

record analysis_result =
  financial_health :: string
  issues :: "issue list"
  action_plan :: "string list"

text \<open>
  The loop over the detectors: an issue is appended when the detector returns one, and an
  exception of a detector ends the loop and the analysis.
\<close>

fun run_detectors ::
  "(profile \<Rightarrow> error + issue option) list \<Rightarrow> profile \<Rightarrow> issue list \<Rightarrow> error + issue list" where
  "run_detectors [] profile found = Inr found"
| "run_detectors (detector # rest) profile found =
     bind (detector profile) (\<lambda>result.
       case result of
         None \<Rightarrow> run_detectors rest profile found
       | Some i \<Rightarrow> run_detectors rest profile (found @ [i]))"

definition invalid_profile_result :: analysis_result where
  "invalid_profile_result =
     \<lparr>financial_health = ''Poor'',
      issues =
        [\<lparr>issue = ''Invalid Profile Data'',
          severity = ''high'',
          details = [Txt ''Unable to analyze profile due to missing or invalid data''],
          recommendation = ''Re-enter financial data and verify all inputs are correct''\<rparr>],
      action_plan = [''Re-enter financial data'', ''Verify all inputs are correct'']\<rparr>"

definition analyze_profile :: "pyobj \<Rightarrow> error + analysis_result" where
  "analyze_profile obj =
     bind (truthy obj) (\<lambda>true.
      if \<not> true \<or> \<not> isinstance_dict obj
      then Inr invalid_profile_result
      else (case obj of
              PyDict profile \<Rightarrow>
                bind (run_detectors issue_detectors profile []) (\<lambda>found.
                  let health =
                        (if length found = 0 then ''Excellent''
                         else if length (filter (\<lambda>i. severity i = ''high'') found) > 0
                         then ''Poor''
                         else if length found \<le> 2 then ''Good''
                         else ''Fair'');
                      high_priority =
                        map recommendation (filter (\<lambda>i. severity i = ''high'') found);
                      medium_priority =
                        map recommendation (filter (\<lambda>i. severity i = ''medium'') found)
                  in Inr \<lparr>financial_health = health,
                          issues = found,
                          action_plan = high_priority @ medium_priority\<rparr>)
            | _ \<Rightarrow> Inr invalid_profile_result))"

section \<open>FinancialSimulator (src/src/simulator.py)\<close>

text \<open>
  The simulator object: the profile, the number of simulated years and the first day of
  the current month, which the constructor reads from the clock; a date is a day number.
\<close>

record simulator =
  profile :: profile
  simulation_years :: nat
  current_month :: int

definition months :: "simulator \<Rightarrow> nat" where
  "months sim = simulation_years sim * 12"

text \<open>The data frame that is returned, as the list of its rows, one for each month.\<close>

record row =
  date :: int
  income :: real
  expenses :: real
  savings :: real
  debt :: real
  net_worth :: real

text \<open>\<^verbatim>\<open>params.get(key, default)\<close> on the dictionary of scenario parameters.\<close>

definition param_get :: "(string \<times> real) list \<Rightarrow> string \<Rightarrow> real \<Rightarrow> real" where
  "param_get params key dflt = (case map_of params key of None \<Rightarrow> dflt | Some v \<Rightarrow> v)"

text \<open>
  The body of the month loop. The running values \<open>monthly_income\<close>, \<open>total_savings\<close>
  and \<open>total_debt\<close> come from the profile and are numbers or strings at the first
  month; the result is the row that is recorded and the running values for the next month.
\<close>

definition month_step ::
  "profile \<Rightarrow> int \<Rightarrow> real \<Rightarrow> real \<Rightarrow> real \<Rightarrow> nat \<Rightarrow> pval \<times> pval \<times> pval
     \<Rightarrow> error + (row \<times> pval \<times> pval \<times> pval)" where
  "month_step prof start monthly_expenses income_growth extra_debt_payment i st =
     (case st of (monthly_income, total_savings, total_debt) \<Rightarrow>
      bind (if i > 0 \<and> i mod 12 = 0
            then bind (as_num monthly_income) (\<lambda>x. Inr (Num (x * (1 + income_growth))))
            else Inr monthly_income) (\<lambda>monthly_income.
      let current_date = start + 30 * int i
      in bind (as_num monthly_income) (\<lambda>income_now.
         let this_month_savings = income_now - monthly_expenses
         in bind (as_num total_debt) (\<lambda>debt_now.
            bind (if debt_now > 0
                  then bind (as_num (get_default prof ''primary_debt_apr'' (Num 15)))
                         (\<lambda>apr.
                           let avg_apr = apr / 100;
                               monthly_interest_rate = avg_apr / 12;
                               interest_amount = debt_now * monthly_interest_rate;
                               min_payment = max (debt_now * (2 / 100)) 25;
                               total_payment =
                                 min (min_payment + extra_debt_payment)
                                     (debt_now + interest_amount)
                           in Inr (debt_now + interest_amount - total_payment,
                                   this_month_savings - total_payment))
                  else Inr (debt_now, this_month_savings))
              (\<lambda>(total_debt', this_month_savings').
            bind (as_num total_savings) (\<lambda>savings_now.
              let savings_interest_rate = (2 / 100) / 12;
                  interest_earned = savings_now * savings_interest_rate;
                  total_savings' = savings_now + (this_month_savings' + interest_earned);
                  net = total_savings' - max 0 total_debt'
              in Inr (\<lparr>date = current_date, income = income_now,
                        expenses = monthly_expenses, savings = total_savings',
                        debt = max 0 total_debt', net_worth = net\<rparr>,
                      (Num income_now, Num total_savings', Num total_debt'))))))))"

text \<open>
  The debt part of the loop body alone: the balance after a month as a function of the
  balance before it, the APR and the extra payment.
\<close>

definition debt_step :: "real \<Rightarrow> real \<Rightarrow> real \<Rightarrow> real" where
  "debt_step apr extra_debt_payment total_debt =
     (if total_debt > 0
      then (let avg_apr = apr / 100;
                monthly_interest_rate = avg_apr / 12;
                interest_amount = total_debt * monthly_interest_rate;
                min_payment = max (total_debt * (2 / 100)) 25;
                total_payment =
                  min (min_payment + extra_debt_payment) (total_debt + interest_amount)
            in total_debt + interest_amount - total_payment)
      else total_debt)"

text \<open>
  \<^verbatim>\<open>for i in range(self.months)\<close>: \<open>n\<close> months remain and \<open>i\<close> is the index of
  the next one.
\<close>

fun month_loop ::
  "profile \<Rightarrow> int \<Rightarrow> real \<Rightarrow> real \<Rightarrow> real \<Rightarrow> nat \<Rightarrow> nat \<Rightarrow> pval \<times> pval \<times> pval
     \<Rightarrow> error + row list" where
  "month_loop prof start monthly_expenses income_growth extra_debt_payment 0 i st = Inr []"
| "month_loop prof start monthly_expenses income_growth extra_debt_payment (Suc n) i st =
     bind (month_step prof start monthly_expenses income_growth extra_debt_payment i st)
       (\<lambda>(r, st').
     bind (month_loop prof start monthly_expenses income_growth extra_debt_payment
             n (Suc i) st')
       (\<lambda>rs. Inr (r # rs)))"

text \<open>
  \<open>_calculate_monthly_results\<close>. The variable \<open>monthly_savings\<close> of the source is
  computed and never read; its computation is kept because it can raise.
\<close>

definition calculate_monthly_results ::
  "simulator \<Rightarrow> string \<Rightarrow> (string \<times> real) list \<Rightarrow> error + row list" where
  "calculate_monthly_results sim scenario params =
     bind (getitem (profile sim) ''monthly_income'') (\<lambda>monthly_income.
     bind (sum_expenses (profile sim)) (\<lambda>monthly_expenses.
     bind (if contains (profile sim) ''monthly_savings''
           then getitem (profile sim) ''monthly_savings''
           else bind (as_num monthly_income) (\<lambda>x. Inr (Num (x - monthly_expenses))))
       (\<lambda>monthly_savings.
     bind (getitem (profile sim) ''current_savings'') (\<lambda>current_savings.
     let current_debt = get_default (profile sim) ''total_debt'' (Num 0)
     in bind (if scenario = ''improved''
              then bind (as_num monthly_income) (\<lambda>x.
                     let income_growth = param_get params ''income_growth'' (2 / 100);
                         expense_reduction = param_get params ''expense_reduction'' (1 / 10);
                         extra_debt_payment =
                           param_get params ''extra_debt_payment'' (1 / 10) * x;
                         monthly_expenses' = monthly_expenses * (1 - expense_reduction)
                     in Inr (income_growth, extra_debt_payment, monthly_expenses'))
              else Inr (2 / 100, 0, monthly_expenses))
          (\<lambda>(income_growth, extra_debt_payment, monthly_expenses').
            month_loop (profile sim) (current_month sim) monthly_expenses' income_growth
              extra_debt_payment (months sim) 0
              (monthly_income, current_savings, current_debt))))))"

definition simulate_current_path :: "simulator \<Rightarrow> error + row list" where
  "simulate_current_path sim = calculate_monthly_results sim ''current'' []"

definition simulate_improved_path ::
  "simulator \<Rightarrow> (string \<times> real) list option \<Rightarrow> error + row list" where
  "simulate_improved_path sim params =
     (let params' =
            (case params of
               None \<Rightarrow> [(''expense_reduction'', 1 / 10), (''income_growth'', 3 / 100),
                        (''extra_debt_payment'', 1 / 10)]
             | Some ps \<Rightarrow> ps)
      in calculate_monthly_results sim ''improved'' params')"

text \<open>
  \<^verbatim>\<open>frame[frame['debt'] <= 0]['date'].min() if (frame['debt'] <= 0).any() else None\<close>:
  the earliest date among the rows without debt.
\<close>

definition debt_free_month :: "row list \<Rightarrow> int option" where
  "debt_free_month frame =
     (let dates = map date (filter (\<lambda>r. debt r \<le> 0) frame)
      in if dates = [] then None else Some (Min (set dates)))"

text \<open>\<^verbatim>\<open>frame[column].iloc[-1]\<close> raises \<^verbatim>\<open>IndexError\<close> on a frame without rows.\<close>

definition iloc_last :: "row list \<Rightarrow> error + row" where
  "iloc_last frame = (if frame = [] then Inl IndexError else Inr (last frame))"

record path_summary =
  final_savings :: real
  final_debt :: real
  final_net_worth :: real
  debt_free_date :: "int option"

record comparison =
  end_date :: int
  current_path :: path_summary
  improved_path :: path_summary
  savings_diff :: real
  debt_diff :: real
  net_worth_diff :: real

definition compare_scenarios :: "simulator \<Rightarrow> error + (row list \<times> row list \<times> comparison)" where
  "compare_scenarios sim =
     bind (simulate_current_path sim) (\<lambda>current.
     bind (simulate_improved_path sim None) (\<lambda>improved.
     bind (iloc_last current) (\<lambda>c.
     bind (iloc_last improved) (\<lambda>m.
       Inr (current, improved,
            \<lparr>end_date = date c,
             current_path =
               \<lparr>final_savings = savings c, final_debt = debt c,
                final_net_worth = net_worth c,
                debt_free_date = debt_free_month current\<rparr>,
             improved_path =
               \<lparr>final_savings = savings m, final_debt = debt m,
                final_net_worth = net_worth m,
                debt_free_date = debt_free_month improved\<rparr>,
             savings_diff = savings m - savings c,
             debt_diff = debt c - debt m,
             net_worth_diff = net_worth m - net_worth c\<rparr>)))))"

text \<open>
  The month index at which the recorded debt first is at most 0, as the specification
  words the debt-free date.
\<close>

fun debt_free_index :: "row list \<Rightarrow> nat option" where
  "debt_free_index [] = None"
| "debt_free_index (r # rs) =
     (if debt r \<le> 0 then Some 0 else map_option Suc (debt_free_index rs))"

section \<open>InvestmentSimulator (src/src/investment_simulator.py)\<close>

record asset_class =
  avg_return :: real
  volatility :: real
  risk_level :: string

definition asset_classes :: "(string \<times> asset_class) list" where
  "asset_classes =
     [(''savings_account'',
         \<lparr>avg_return = 2 / 100, volatility = 2 / 1000, risk_level = ''very_low''\<rparr>),
      (''bonds'', \<lparr>avg_return = 4 / 100, volatility = 5 / 100, risk_level = ''low''\<rparr>),
      (''index_funds'',
         \<lparr>avg_return = 8 / 100, volatility = 15 / 100, risk_level = ''medium''\<rparr>),
      (''stocks'', \<lparr>avg_return = 10 / 100, volatility = 20 / 100, risk_level = ''high''\<rparr>),
      (''crypto'',
         \<lparr>avg_return = 15 / 100, volatility = 50 / 100, risk_level = ''very_high''\<rparr>)]"

type_synonym allocation = "(string \<times> real) list"

definition risk_profiles :: "(string \<times> allocation) list" where
  "risk_profiles =
     [(''very_conservative'',
         [(''savings_account'', 70 / 100), (''bonds'', 30 / 100), (''index_funds'', 0),
          (''stocks'', 0), (''crypto'', 0)]),
      (''conservative'',
         [(''savings_account'', 40 / 100), (''bonds'', 40 / 100), (''index_funds'', 20 / 100),
          (''stocks'', 0), (''crypto'', 0)]),
      (''moderate'',
         [(''savings_account'', 20 / 100), (''bonds'', 30 / 100), (''index_funds'', 40 / 100),
          (''stocks'', 10 / 100), (''crypto'', 0)]),
      (''aggressive'',
         [(''savings_account'', 10 / 100), (''bonds'', 15 / 100), (''index_funds'', 40 / 100),
          (''stocks'', 30 / 100), (''crypto'', 5 / 100)]),
      (''very_aggressive'',
         [(''savings_account'', 5 / 100), (''bonds'', 10 / 100), (''index_funds'', 30 / 100),
          (''stocks'', 40 / 100), (''crypto'', 15 / 100)])]"

text \<open>\<^verbatim>\<open>d[key]\<close> and \<^verbatim>\<open>d[key] = value\<close> on a dictionary with string keys.\<close>

definition lookup :: "(string \<times> 'v) list \<Rightarrow> string \<Rightarrow> error + 'v" where
  "lookup d key = (case map_of d key of None \<Rightarrow> Inl (KeyError key) | Some v \<Rightarrow> Inr v)"

fun setitem :: "(string \<times> 'v) list \<Rightarrow> string \<Rightarrow> 'v \<Rightarrow> (string \<times> 'v) list" where
  "setitem [] key v = [(key, v)]"
| "setitem ((k, w) # rest) key v =
     (if k = key then (k, v) # rest else (k, w) # setitem rest key v)"

text \<open>
  The random generator is a parameter: \<open>normal g loc scale size\<close> stands for
  \<^verbatim>\<open>np.random.normal(loc, scale, size)\<close> in the generator state \<open>g\<close> and returns the
  samples and the next state.
\<close>

type_synonym 'g sampler = "'g \<Rightarrow> real \<Rightarrow> real \<Rightarrow> nat \<Rightarrow> real list \<times> 'g"

text \<open>
  \<^verbatim>\<open>(1 + annual_return) ** (1/12) - 1\<close>. Every annual return of the catalog is
  above -1, where Python's power of a float is the real power.
\<close>

definition monthly_mean :: "real \<Rightarrow> real" where
  "monthly_mean annual_return = (1 + annual_return) powr (1 / 12) - 1"

definition generate_monthly_returns ::
  "'g sampler \<Rightarrow> 'g \<Rightarrow> string \<Rightarrow> nat \<Rightarrow> error + (real list \<times> 'g)" where
  "generate_monthly_returns normal g asset_name n =
     bind (lookup asset_classes asset_name) (\<lambda>asset.
       let annual_return = avg_return asset;
           annual_volatility = volatility asset;
           monthly_return = monthly_mean annual_return;
           monthly_volatility = annual_volatility / sqrt 12
       in Inr (normal g monthly_return monthly_volatility n))"

text \<open>The loop that fills \<open>asset_returns\<close>, one draw for each asset with a positive weight.\<close>

fun generate_all ::
  "'g sampler \<Rightarrow> nat \<Rightarrow> allocation \<Rightarrow> 'g \<Rightarrow> (string \<times> real list) list
     \<Rightarrow> error + ((string \<times> real list) list \<times> 'g)" where
  "generate_all normal n [] g asset_returns = Inr (asset_returns, g)"
| "generate_all normal n ((asset, alloc_pct) # rest) g asset_returns =
     (if alloc_pct > 0
      then bind (generate_monthly_returns normal g asset n) (\<lambda>(returns, g').
             generate_all normal n rest g' (setitem asset_returns asset returns))
      else generate_all normal n rest g asset_returns)"

text \<open>The loop that fills \<open>current_values\<close>.\<close>

fun initial_values :: "real \<Rightarrow> allocation \<Rightarrow> (string \<times> real) list \<Rightarrow> (string \<times> real) list" where
  "initial_values initial_investment [] current_values = current_values"
| "initial_values initial_investment ((asset, alloc_pct) # rest) current_values =
     (if alloc_pct > 0
      then initial_values initial_investment rest
             (setitem current_values asset (initial_investment * alloc_pct))
      else initial_values initial_investment rest current_values)"

text \<open>
  The inner loop of month \<open>i\<close> over the items of the allocation: it updates
  \<open>current_values\<close> and appends to each asset's column; \<open>recorded\<close> collects what
  this month appends, in the order of the columns.
\<close>

fun month_assets ::
  "nat \<Rightarrow> real \<Rightarrow> (string \<times> real list) list \<Rightarrow> allocation \<Rightarrow> (string \<times> real) list
     \<Rightarrow> (string \<times> real) list \<Rightarrow> error + ((string \<times> real) list \<times> (string \<times> real) list)" where
  "month_assets i monthly_contribution asset_returns [] current_values recorded =
     Inr (current_values, recorded)"
| "month_assets i monthly_contribution asset_returns ((asset, alloc_pct) # rest)
       current_values recorded =
     (if alloc_pct > 0
      then (let contribution = monthly_contribution * alloc_pct
            in bind (lookup asset_returns asset) (\<lambda>returns.
               bind (if i < length returns
                     then Inr (returns ! i)
                     else bind (lookup asset_classes asset) (\<lambda>a.
                            Inr (monthly_mean (avg_return a)))) (\<lambda>monthly_roi.
               bind (lookup current_values asset) (\<lambda>v.
                 let v' = v * (1 + monthly_roi) + contribution
                 in month_assets i monthly_contribution asset_returns rest
                      (setitem current_values asset v') (recorded @ [(asset, v')])))))
      else month_assets i monthly_contribution asset_returns rest current_values recorded)"

text \<open>A row of the returned frame: the date, the total and the value of each asset column.\<close>

record investment_row =
  month_date :: int
  total_value :: real
  asset_values :: "(string \<times> real) list"

fun investment_loop ::
  "int \<Rightarrow> real \<Rightarrow> (string \<times> real list) list \<Rightarrow> allocation \<Rightarrow> nat \<Rightarrow> nat
     \<Rightarrow> (string \<times> real) list \<Rightarrow> error + investment_row list" where
  "investment_loop start monthly_contribution asset_returns allocation 0 i current_values =
     Inr []"
| "investment_loop start monthly_contribution asset_returns allocation (Suc n) i
       current_values =
     bind (month_assets i monthly_contribution asset_returns allocation current_values [])
       (\<lambda>(current_values', recorded).
     let total = sum_list (map snd current_values')
     in bind (investment_loop start monthly_contribution asset_returns allocation n (Suc i)
                current_values')
          (\<lambda>rows. Inr (\<lparr>month_date = start + 30 * int i, total_value = total,
                          asset_values = recorded\<rparr> # rows)))"

definition simulate_investment_path ::
  "'g sampler \<Rightarrow> 'g \<Rightarrow> simulator \<Rightarrow> string \<Rightarrow> real \<Rightarrow> real
     \<Rightarrow> error + (investment_row list \<times> 'g)" where
  "simulate_investment_path normal g sim risk_profile monthly_contribution
       initial_investment =
     (case map_of risk_profiles risk_profile of
        None \<Rightarrow> Inl (ValueError risk_profile)
      | Some allocation \<Rightarrow>
          bind (generate_all normal (months sim) allocation g []) (\<lambda>(asset_returns, g').
            let current_values = initial_values initial_investment allocation []
            in bind (investment_loop (current_month sim) monthly_contribution asset_returns
                       allocation (months sim) 0 current_values)
                 (\<lambda>rows. Inr (rows, g'))))"

subsection \<open>The recorded values in closed form\<close>

text \<open>
  The value of an asset after \<open>t\<close> months as the specification gives it: the share of
  the initial investment before the first month, and each month the previous value grown
  by that month's return plus the share of the contribution.
\<close>

fun asset_value :: "(string \<Rightarrow> nat \<Rightarrow> real) \<Rightarrow> real \<Rightarrow> real \<Rightarrow> string \<Rightarrow> real \<Rightarrow> nat \<Rightarrow> real" where
  "asset_value roi monthly_contribution initial_investment asset weight 0 =
     initial_investment * weight"
| "asset_value roi monthly_contribution initial_investment asset weight (Suc t) =
     asset_value roi monthly_contribution initial_investment asset weight t
       * (1 + roi asset t)
     + monthly_contribution * weight"

text \<open>The items of an allocation that the loops act on: those with a positive weight.\<close>

definition positive :: "allocation \<Rightarrow> allocation" where
  "positive allocation = filter (\<lambda>(asset, alloc_pct). alloc_pct > 0) allocation"

text \<open>
  The return the inner loop applies in month \<open>i\<close>: the drawn sample, or the mean monthly
  return when the samples have run out.
\<close>

definition effective_roi ::
  "(string \<Rightarrow> real list) \<Rightarrow> (string \<Rightarrow> asset_class) \<Rightarrow> string \<Rightarrow> nat \<Rightarrow> real" where
  "effective_roi returns_of class_of asset i =
     (if i < length (returns_of asset) then returns_of asset ! i
      else monthly_mean (avg_return (class_of asset)))"

subsection \<open>recommend_risk_profile\<close>

definition risk_score_map :: "(pval \<times> real) list" where
  "risk_score_map = [(Str ''Low'', 3), (Str ''Medium'', 6), (Str ''High'', 9)]"

definition recommend_risk_profile :: "profile \<Rightarrow> error + string" where
  "recommend_risk_profile user_profile =
     (let age = get_default user_profile ''age'' (Num 35)
      in bind (as_num age) (\<lambda>age_years.
         let years_to_retirement = max (65 - age_years) 5;
             current_savings = get_default user_profile ''current_savings'' (Num 0)
         in bind (sum_expenses user_profile) (\<lambda>monthly_expenses.
            bind (as_num current_savings) (\<lambda>savings_now.
              let has_emergency_fund = (savings_now \<ge> monthly_expenses * 3);
                  risk_tolerance = get_default user_profile ''risk_tolerance'' (Str ''Medium'');
                  time_score = min 10 (years_to_retirement / 4);
                  emergency_score = (if has_emergency_fund then 7 else 3);
                  risk_score =
                    (case map_of risk_score_map risk_tolerance of
                       None \<Rightarrow> 6 | Some x \<Rightarrow> x);
                  total_score =
                    (time_score * (5 / 10)) + (emergency_score * (3 / 10))
                      + (risk_score * (2 / 10))
              in Inr (if total_score < 3 then ''very_conservative''
                      else if total_score < 5 then ''conservative''
                      else if total_score < 7 then ''moderate''
                      else if total_score < 85 / 10 then ''aggressive''
                      else ''very_aggressive'')))))"

text \<open>The order of the five tiers.\<close>

definition tier_rank :: "string \<Rightarrow> nat" where
  "tier_rank name =
     (if name = ''very_conservative'' then 0
      else if name = ''conservative'' then 1
      else if name = ''moderate'' then 2
      else if name = ''aggressive'' then 3
      else 4)"

section \<open>Properties of the tax calculator\<close>

lemma income_within_below:
  "taxable_income \<le> lower \<Longrightarrow> income_within taxable_income lower upper = 0"
  by (cases upper) (auto simp: income_within_def)

lemma marginal_tax_spec_below:
  "list_all (\<lambda>(l, u, r). t \<le> l) bs \<Longrightarrow> marginal_tax_spec bs t = 0"
  by (induction bs) (auto simp: marginal_tax_spec_def income_within_below)

lemma bracket_income_within:
  assumes "lower < t" and "case upper of None \<Rightarrow> True | Some u \<Rightarrow> lower \<le> u"
  shows "bracket_income t lower upper = income_within t lower upper"
  using assms by (cases upper) (auto simp: bracket_income_def income_within_def)

lemma bracket_loop_marginal:
  "ascending bs \<Longrightarrow> bracket_loop t bs acc = acc + marginal_tax_spec bs t"
proof (induction bs arbitrary: acc)
  case Nil
  show ?case by (simp add: marginal_tax_spec_def)
next
  case (Cons b bs)
  obtain lower upper rate where b: "b = (lower, upper, rate)"
    by (cases b) auto
  from Cons.prems b have up: "case upper of None \<Rightarrow> True | Some u \<Rightarrow> lower \<le> u"
    and later: "list_all (\<lambda>(l, u, r). lower \<le> l) bs" and asc: "ascending bs"
    by simp_all
  have split: "marginal_tax_spec (b # bs) t
      = income_within t lower upper * rate + marginal_tax_spec bs t"
    by (simp add: marginal_tax_spec_def b)
  show ?case
  proof (cases "lower < t")
    case True
    then have "bracket_loop t (b # bs) acc
        = bracket_loop t bs (acc + bracket_income t lower upper * rate)"
      by (simp add: b)
    also have "\<dots> = acc + bracket_income t lower upper * rate + marginal_tax_spec bs t"
      by (rule Cons.IH [OF asc])
    finally show ?thesis
      using bracket_income_within [OF True up] split by simp
  next
    case False
    then have le: "t \<le> lower" by simp
    have "list_all (\<lambda>(l, u, r). t \<le> l) bs"
      using later le by (induction bs) auto
    then have "marginal_tax_spec bs t = 0"
      by (rule marginal_tax_spec_below)
    then show ?thesis
      using False split income_within_below [OF le] by (simp add: b)
  qed
qed

lemma ascending_federal_brackets: "ascending federal_brackets"
  by (simp add: federal_brackets_def)

lemma federal_tax_marginal:
  "calculate_federal_income_tax annual_income deductions =
     marginal_tax_spec federal_brackets
       (max 0 (annual_income
                - (case deductions of None \<Rightarrow> standard_deduction | Some d \<Rightarrow> d)))"
  by (simp add: calculate_federal_income_tax_def Let_def
        bracket_loop_marginal [OF ascending_federal_brackets])

lemma income_within_mono:
  "t1 \<le> t2 \<Longrightarrow> income_within t1 lower upper \<le> income_within t2 lower upper"
  by (cases upper) (auto simp: income_within_def)

lemma income_within_nonneg: "0 \<le> income_within t lower upper"
  by (simp add: income_within_def)

lemma marginal_tax_spec_mono:
  "list_all (\<lambda>(l, u, r). 0 \<le> r) bs \<Longrightarrow> t1 \<le> t2
     \<Longrightarrow> marginal_tax_spec bs t1 \<le> marginal_tax_spec bs t2"
proof (induction bs)
  case Nil
  show ?case by (simp add: marginal_tax_spec_def)
next
  case (Cons b bs)
  obtain lower upper rate where b: "b = (lower, upper, rate)"
    by (cases b) auto
  from Cons.prems b have rate: "0 \<le> rate" and rest: "list_all (\<lambda>(l, u, r). 0 \<le> r) bs"
    by simp_all
  have "income_within t1 lower upper * rate \<le> income_within t2 lower upper * rate"
    using income_within_mono [OF Cons.prems(2)] rate by (rule mult_right_mono)
  moreover have "marginal_tax_spec bs t1 \<le> marginal_tax_spec bs t2"
    using Cons.IH rest Cons.prems(2) by simp
  ultimately show ?case
    by (simp add: marginal_tax_spec_def b)
qed

lemma marginal_tax_spec_nonneg:
  "list_all (\<lambda>(l, u, r). 0 \<le> r) bs \<Longrightarrow> 0 \<le> marginal_tax_spec bs t"
proof (induction bs)
  case Nil
  show ?case by (simp add: marginal_tax_spec_def)
next
  case (Cons b bs)
  obtain lower upper rate where b: "b = (lower, upper, rate)"
    by (cases b) auto
  from Cons.prems b have rate: "0 \<le> rate" and rest: "list_all (\<lambda>(l, u, r). 0 \<le> r) bs"
    by simp_all
  have "0 \<le> income_within t lower upper * rate"
    using income_within_nonneg rate by simp
  moreover have "0 \<le> marginal_tax_spec bs t"
    using Cons.IH rest by simp
  ultimately show ?case
    by (simp add: marginal_tax_spec_def b)
qed

lemma federal_rates_nonneg: "list_all (\<lambda>(l, u, r). 0 \<le> r) federal_brackets"
  by (simp add: federal_brackets_def)

lemma federal_tax_mono:
  "i1 \<le> i2 \<Longrightarrow>
     calculate_federal_income_tax i1 deductions \<le> calculate_federal_income_tax i2 deductions"
  unfolding federal_tax_marginal
  by (rule marginal_tax_spec_mono [OF federal_rates_nonneg]) simp

lemma federal_tax_nonneg: "0 \<le> calculate_federal_income_tax i deductions"
  unfolding federal_tax_marginal
  by (rule marginal_tax_spec_nonneg [OF federal_rates_nonneg])

lemma str_lower_traditional: "str_lower ''traditional'' \<noteq> ''roth''"
  by (simp add: str_lower_def)

subsection \<open>Federal tax is the marginal sum\<close>

text \<open>
  Claim C4. For every income and every deduction (the standard deduction when none is
  supplied), the federal income tax the loop computes is the sum, over the brackets of the
  table, of the income falling within each bracket times that bracket's rate, taken on
  \<open>max 0 (income - deduction)\<close>. On a taxable income of exactly 11000 with a zero
  deduction the tax is exactly 1100, and the part of it falling in the 12 percent bracket
  is 0. The statement holds for negative incomes as well, so it has no hypothesis.
\<close>

theorem federal_tax_is_marginal_sum:
  "calculate_federal_income_tax annual_income deductions =
     marginal_tax_spec federal_brackets
       (max 0 (annual_income
                - (case deductions of None \<Rightarrow> standard_deduction | Some d \<Rightarrow> d)))
   \<and> calculate_federal_income_tax 11000 (Some 0) = 1100
   \<and> income_within 11000 11000 (Some 44725) * (12 / 100) = 0"
proof -
  have "calculate_federal_income_tax 11000 (Some 0) = 1100"
    by (simp add: calculate_federal_income_tax_def federal_brackets_def bracket_income_def)
  moreover have "income_within 11000 11000 (Some 44725) * (12 / 100) = 0"
    by (simp add: income_within_def)
  ultimately show ?thesis
    using federal_tax_marginal by simp
qed

subsection \<open>Federal tax is nonnegative and monotone\<close>

text \<open>
  Claim C9. For incomes \<open>0 \<le> i1 \<le> i2\<close> and a fixed nonnegative deduction (or the
  standard deduction), the federal income tax is nonnegative and does not decrease from
  \<open>i1\<close> to \<open>i2\<close>; hence for a contribution between 0 and the income, the tax savings of
  a traditional retirement contribution, the tax on the income minus the tax on the income
  less the contribution, are never negative.
\<close>

theorem federal_tax_monotone:
  "(0 \<le> i1 \<and> i1 \<le> i2 \<and> 0 \<le> d \<longrightarrow>
      0 \<le> calculate_federal_income_tax i1 (Some d)
      \<and> calculate_federal_income_tax i1 (Some d) \<le> calculate_federal_income_tax i2 (Some d))
   \<and> (0 \<le> i1 \<and> i1 \<le> i2 \<longrightarrow>
      0 \<le> calculate_federal_income_tax i1 None
      \<and> calculate_federal_income_tax i1 None \<le> calculate_federal_income_tax i2 None)
   \<and> (0 \<le> contribution \<and> contribution \<le> annual_income \<longrightarrow>
      current_year_tax_savings
        (calculate_retirement_contribution_tax_savings annual_income contribution
           ''traditional'')
        = calculate_federal_income_tax annual_income None
          - calculate_federal_income_tax (annual_income - contribution) None
      \<and> 0 \<le> current_year_tax_savings
        (calculate_retirement_contribution_tax_savings annual_income contribution
           ''traditional''))"
proof -
  have sav: "current_year_tax_savings
        (calculate_retirement_contribution_tax_savings annual_income contribution
           ''traditional'')
        = calculate_federal_income_tax annual_income None
          - calculate_federal_income_tax (annual_income - contribution) None"
    by (simp add: calculate_retirement_contribution_tax_savings_def str_lower_traditional
          Let_def)
  have "0 \<le> contribution \<Longrightarrow>
      calculate_federal_income_tax (annual_income - contribution) None
        \<le> calculate_federal_income_tax annual_income None"
    by (rule federal_tax_mono) simp
  then show ?thesis
    using sav federal_tax_mono federal_tax_nonneg by simp
qed

text \<open>The theorem at incomes 20000 and 60000, deduction 5000, and a contribution of 1000 on 50000.\<close>

theorem federal_tax_monotone_witness:
  "0 \<le> calculate_federal_income_tax 20000 (Some 5000)
   \<and> calculate_federal_income_tax 20000 (Some 5000)
       \<le> calculate_federal_income_tax 60000 (Some 5000)
   \<and> calculate_federal_income_tax 20000 None \<le> calculate_federal_income_tax 60000 None
   \<and> current_year_tax_savings
        (calculate_retirement_contribution_tax_savings 50000 1000 ''traditional'') = 120"
proof -
  have "calculate_federal_income_tax 50000 None = 4118"
    by (simp add: calculate_federal_income_tax_def federal_brackets_def bracket_income_def
          standard_deduction_def)
  moreover have "calculate_federal_income_tax (50000 - 1000) None = 3998"
    by (simp add: calculate_federal_income_tax_def federal_brackets_def bracket_income_def
          standard_deduction_def)
  ultimately show ?thesis
    using federal_tax_monotone [of 20000 60000 5000 1000 50000] by simp
qed

subsection \<open>The Roth phase-out\<close>

text \<open>
  Claim C5. The allowed Roth contribution at an income exactly at the Roth income limit
  (153000) is the proposed contribution capped at the IRA limit (6500); at an income exactly
  at the phase-out ceiling (228000) it is 0; at the midpoint of the two the cap is half the
  IRA limit; and for an income between the two bounds the result is the smaller of the
  proposed contribution and the linear interpolation between the full IRA limit at the
  income limit and 0 at the ceiling.
\<close>

theorem roth_phase_out:
  "roth_ira_limit = 153000 \<and> roth_ira_phaseout = 228000 \<and> ira_limit = 6500
   \<and> check_roth_contribution_limit roth_ira_limit proposed = min proposed ira_limit
   \<and> check_roth_contribution_limit roth_ira_phaseout proposed = 0
   \<and> check_roth_contribution_limit ((roth_ira_limit + roth_ira_phaseout) / 2) proposed
       = min proposed (ira_limit / 2)
   \<and> (roth_ira_limit \<le> annual_income \<and> annual_income \<le> roth_ira_phaseout \<longrightarrow>
        check_roth_contribution_limit annual_income proposed
          = (if annual_income = roth_ira_phaseout then 0
             else min proposed
               (ira_limit + (annual_income - roth_ira_limit) * (0 - ira_limit)
                              / (roth_ira_phaseout - roth_ira_limit))))"
  by (auto simp: check_roth_contribution_limit_def roth_ira_limit_def roth_ira_phaseout_def
        ira_limit_def Let_def field_simps)

text \<open>At a quarter of the way into the phase-out range three quarters of the limit remain.\<close>

theorem roth_phase_out_witness:
  "check_roth_contribution_limit 171750 7000 = 4875"
  using roth_phase_out [of 7000 171750]
  by (simp add: roth_ira_limit_def roth_ira_phaseout_def ira_limit_def)

subsection \<open>Negative inputs\<close>

text \<open>
  Claim C2, as amended. None of the three functions contains a \<^verbatim>\<open>raise\<close>, and none
  validates its arguments: each is a total function into numbers. For every negative annual
  income the federal income tax is 0 and the FICA amounts are the (negative) products of
  the income with the Social Security and Medicare rates; for every negative contribution
  the retirement-contribution function returns its usual dictionary, with the savings rate
  0 for a traditional account.
\<close>

theorem tax_entry_points_no_validation:
  "(annual_income < 0 \<longrightarrow>
      calculate_federal_income_tax annual_income None = 0
      \<and> social_security (calculate_fica_taxes annual_income) = annual_income * (62 / 1000)
      \<and> medicare (calculate_fica_taxes annual_income) = annual_income * (145 / 10000)
      \<and> total_fica (calculate_fica_taxes annual_income)
          = annual_income * (62 / 1000) + annual_income * (145 / 10000))
   \<and> (contribution < 0 \<longrightarrow>
      calculate_retirement_contribution_tax_savings annual_income contribution
          ''traditional''
        = Traditional_savings
            (calculate_federal_income_tax annual_income None
              - calculate_federal_income_tax (annual_income - contribution) None)
            (contribution
              - (calculate_federal_income_tax annual_income None
                  - calculate_federal_income_tax (annual_income - contribution) None))
            0
      \<and> calculate_retirement_contribution_tax_savings annual_income contribution ''roth''
        = Roth_savings 0 (check_roth_contribution_limit annual_income contribution))"
proof -
  have fed: "annual_income < 0 \<Longrightarrow> calculate_federal_income_tax annual_income None = 0"
    by (simp add: calculate_federal_income_tax_def federal_brackets_def
          standard_deduction_def max_def)
  have fica: "annual_income < 0 \<Longrightarrow>
      social_security (calculate_fica_taxes annual_income) = annual_income * (62 / 1000)
      \<and> medicare (calculate_fica_taxes annual_income) = annual_income * (145 / 10000)
      \<and> total_fica (calculate_fica_taxes annual_income)
          = annual_income * (62 / 1000) + annual_income * (145 / 10000)"
    by (simp add: calculate_fica_taxes_def Let_def social_security_cap_def
          social_security_rate_def medicare_rate_def additional_medicare_threshold_def)
  have roth: "str_lower ''roth'' = ''roth''"
    by (simp add: str_lower_def lower_char_def)
  show ?thesis
    using fed fica
    by (simp add: calculate_retirement_contribution_tax_savings_def str_lower_traditional
          roth Let_def)
qed

text \<open>The amended statement at an income of -1000 and a contribution of -500.\<close>

theorem tax_entry_points_no_validation_witness:
  "calculate_federal_income_tax (- 1000) None = 0
   \<and> total_fica (calculate_fica_taxes (- 1000)) = - (153 / 2)
   \<and> calculate_retirement_contribution_tax_savings (- 1000) (- 500) ''roth''
       = Roth_savings 0 (- 500)"
  using tax_entry_points_no_validation [of "- 1000" "- 500"]
  by (simp add: check_roth_contribution_limit_def roth_ira_limit_def ira_limit_def)

text \<open>
  Claim C2 as it is written fails: on an income of -1000 the federal tax and FICA functions
  return numbers, and so does the retirement function on a contribution of -1000, where the
  claim demands a rejection.
\<close>

theorem negative_tax_input_counterexample:
  "calculate_federal_income_tax (- 1000) None = 0
   \<and> calculate_fica_taxes (- 1000)
       = \<lparr>social_security = - 62, medicare = - (29 / 2), total_fica = - (153 / 2)\<rparr>
   \<and> calculate_retirement_contribution_tax_savings 50000 (- 1000) ''traditional''
       = Traditional_savings (- 120) (- 880) 0"
proof -
  have a: "calculate_federal_income_tax (- 1000) None = 0"
    by (simp add: calculate_federal_income_tax_def federal_brackets_def
          standard_deduction_def)
  have b: "calculate_fica_taxes (- 1000)
       = \<lparr>social_security = - 62, medicare = - (29 / 2), total_fica = - (153 / 2)\<rparr>"
    by (simp add: calculate_fica_taxes_def Let_def social_security_cap_def
          social_security_rate_def medicare_rate_def additional_medicare_threshold_def)
  have c: "calculate_federal_income_tax 50000 None = 4118"
    by (simp add: calculate_federal_income_tax_def federal_brackets_def bracket_income_def
          standard_deduction_def)
  have d: "calculate_federal_income_tax (50000 - (- 1000)) None = 4238"
    by (simp add: calculate_federal_income_tax_def federal_brackets_def bracket_income_def
          standard_deduction_def)
  have e: "calculate_retirement_contribution_tax_savings 50000 (- 1000) ''traditional''
       = Traditional_savings (- 120) (- 880) 0"
    using c d
    by (simp add: calculate_retirement_contribution_tax_savings_def str_lower_traditional
          Let_def)
  show ?thesis using a b e by simp
qed

section \<open>Properties of the analyzer\<close>

lemma py_sum_nonneg:
  "list_all nonneg_num vs \<Longrightarrow> \<exists>e. py_sum vs acc = Inr e \<and> acc \<le> e"
proof (induction vs arbitrary: acc)
  case Nil
  show ?case by simp
next
  case (Cons v vs)
  from Cons.prems have nn: "nonneg_num v" and rest: "list_all nonneg_num vs"
    by simp_all
  from nn obtain x where v: "v = Num x" and x: "0 \<le> x"
    by (cases v) (auto simp: nonneg_num_def)
  from Cons.IH [OF rest, of "acc + x"] obtain e where "py_sum vs (acc + x) = Inr e" "acc + x \<le> e"
    by blast
  with v x show ?case
    by (auto simp: bind_def as_num_def)
qed

lemma well_formed_expenses:
  "well_formed prof \<Longrightarrow> \<exists>e. sum_expenses prof = Inr e \<and> 0 \<le> e"
  unfolding sum_expenses_def well_formed_def using py_sum_nonneg by blast

lemma well_formed_savings:
  "well_formed prof \<Longrightarrow> \<exists>s. map_of prof ''current_savings'' = Some (Num s) \<and> 0 \<le> s"
  unfolding well_formed_def nonneg_num_def
  by (auto split: option.splits pval.splits)

lemma well_formed_income:
  "well_formed prof \<Longrightarrow> \<exists>s. map_of prof ''monthly_income'' = Some (Num s) \<and> 0 \<le> s"
  unfolding well_formed_def nonneg_num_def
  by (auto split: option.splits pval.splits)

subsection \<open>Binary64 rounding\<close>






lemma floor_log2_powi:
  assumes "0 < x"
  shows "\<lfloor>log 2 x\<rfloor> = k \<longleftrightarrow> 2 powi k \<le> x \<and> x < 2 powi (k + 1)"
proof -
  have a: "(2::real) powr real_of_int k = 2 powi k"
    by (rule powr_real_of_int') simp_all
  have b: "(2::real) powr real_of_int (k + 1) = 2 powi (k + 1)"
    by (rule powr_real_of_int') simp_all
  from floor_log_eq_powr_iff [of x 2 k, unfolded a b] assms show ?thesis by simp
qed

lemma float_exponent_eq:
  assumes "0 < x" and "2 powi e \<le> x" and "x < 2 powi (e + 1)" and "- 1022 \<le> e"
  shows "float_exponent x = e"
proof -
  have "\<lfloor>log 2 x\<rfloor> = e"
    using assms by (simp add: floor_log2_powi)
  with assms show ?thesis by (simp add: float_exponent_def)
qed




lemma float_round_pos:
  "0 < x \<Longrightarrow> float_round x
     = of_int (round_half_even (x / 2 powi (float_exponent x - 52)))
       * 2 powi (float_exponent x - 52)"
  by (simp add: float_round_def Let_def)

lemma float_round_binade:
  assumes "0 < x" and "2 powi e \<le> x" and "x < 2 powi (e + 1)" and "- 1022 \<le> e"
  shows "float_round x = of_int (round_half_even (x / 2 powi (e - 52))) * 2 powi (e - 52)"
  using float_round_pos [OF assms(1)] float_exponent_eq [OF assms] by simp














subsection \<open>The emergency-fund detector\<close>







text \<open>
  The rounding of the product decides at the boundary. With expenses of 3786.72 and 370.58
  and savings of 12471.9, each the nearest float, the float sum times 3 is the float
  12471.900000000001 and an issue is emitted.
\<close>

lemma float_round_rent:
  "float_round (8327085342263869 / 2199023255552) = 8327085342263869 / 2199023255552"
  using float_round_binade [of "8327085342263869 / 2199023255552" 11]
  by (simp add: round_half_even_def)

lemma float_round_rent_other:
  "float_round (73135995042450633 / 17592186044416) = 4570999690153165 / 1099511627776"
  using float_round_binade [of "73135995042450633 / 17592186044416" 12]
  by (simp add: round_half_even_def)

lemma float_round_three_times:
  "float_round (13712999070459495 / 1099511627776) = 1714124883807437 / 137438953472"
  using float_round_binade [of "13712999070459495 / 1099511627776" 13]
  by (simp add: round_half_even_def)

lemma emergency_fund_three_months:
  "check_emergency_fund
     [(''monthly_income'', Num 5000),
      (''current_savings'', Num (6856499535229747 / 549755813888)),
      (''expense_rent'', Num (8327085342263869 / 2199023255552)),
      (''expense_other'', Num (6519312304339681 / 17592186044416))] \<noteq> Inr None"
proof -
  have e: "float_sum_expenses
     [(''monthly_income'', Num 5000),
      (''current_savings'', Num (6856499535229747 / 549755813888)),
      (''expense_rent'', Num (8327085342263869 / 2199023255552)),
      (''expense_other'', Num (6519312304339681 / 17592186044416))]
     = Inr (4570999690153165 / 1099511627776)"
    by (simp add: float_sum_expenses_def expense_values_def startswith_def bind_def as_num_def
          float_round_rent float_round_rent_other)
  show ?thesis
    by (simp add: check_emergency_fund_def e bind_def get_default_def as_num_def Let_def
          float_round_three_times)
qed


subsection \<open>Input without an income\<close>

text \<open>
  The guard of \<open>analyze_profile\<close>: an input with a truth value that is false or is not a
  dictionary gets the pre-built result, and an input that refuses a truth value raises.
\<close>

lemma analyze_profile_guard:
  "truthy obj = Inr true \<Longrightarrow> \<not> true \<or> \<not> isinstance_dict obj
     \<Longrightarrow> analyze_profile obj = Inr invalid_profile_result"
  by (auto simp: analyze_profile_def bind_def)

lemma analyze_profile_frame:
  "analyze_profile (PyFrame xs) = Inl (ValueError ''The truth value is ambiguous'')"
  by (simp add: analyze_profile_def bind_def)

text \<open>
  Claim C1. The claim asks that a dictionary without the key \<open>monthly_income\<close> is
  analysed without an exception. On the dictionary with the single field
  \<open>current_savings = 100\<close> the analysis raises \<^verbatim>\<open>KeyError\<close>: the savings-rate
  detector reads the income by subscript, where the debt-to-income detector reads it with
  the default 0 and returns nothing and the expense-ratio detector reads it with the
  default 0 and reports the missing income.
\<close>

theorem analyze_missing_income_raises:
  "analyze_profile (PyDict [(''current_savings'', Num 100)])
     = Inl (KeyError ''monthly_income'')
   \<and> check_savings_rate [(''current_savings'', Num 100)] = Inl (KeyError ''monthly_income'')
   \<and> check_debt_to_income [(''current_savings'', Num 100)] = Inr None
   \<and> map_option issue (projr (check_expense_ratio [(''current_savings'', Num 100)]))
       = Some ''Missing income information''"
  by (simp add: analyze_profile_def issue_detectors_def bind_def check_emergency_fund_def
        check_debt_to_income_def check_expense_ratio_def check_savings_rate_def
        float_sum_expenses_def sum_expenses_def expense_values_def startswith_def
        get_default_def getitem_def as_num_def float_round_def Let_def)

text \<open>
  The input is a dictionary with a field, so it passes the guard, and what comes back is
  not the pre-built result.
\<close>

theorem analyze_missing_income_raises_witness:
  "truthy (PyDict [(''current_savings'', Num 100)]) = Inr True
   \<and> isinstance_dict (PyDict [(''current_savings'', Num 100)])
   \<and> analyze_profile (PyDict [(''current_savings'', Num 100)])
       \<noteq> Inr invalid_profile_result"
  using analyze_missing_income_raises by simp

section \<open>Properties of recommend_risk_profile\<close>

subsection \<open>Dictionary updates\<close>

lemma map_of_setitem: "map_of (setitem d key v) = (map_of d)(key \<mapsto> v)"
  by (induction d key v rule: setitem.induct) auto

lemma expense_values_setitem:
  "\<not> startswith key ''expense_'' \<Longrightarrow>
     expense_values (setitem d key v) = expense_values d"
  by (induction d key v rule: setitem.induct) (auto simp: expense_values_def)

lemma sum_expenses_setitem:
  "\<not> startswith key ''expense_'' \<Longrightarrow> sum_expenses (setitem d key v) = sum_expenses d"
  by (simp add: sum_expenses_def expense_values_setitem)

subsection \<open>The recommended risk profile\<close>

text \<open>The recommendation after the risk tolerance is set, with the lookups resolved.\<close>

lemma recommend_setitem:
  "recommend_risk_profile (setitem p ''risk_tolerance'' (Str t)) =
     bind (as_num (get_default p ''age'' (Num 35))) (\<lambda>age_years.
     bind (sum_expenses p) (\<lambda>monthly_expenses.
     bind (as_num (get_default p ''current_savings'' (Num 0))) (\<lambda>savings_now.
       let total_score =
             min 10 (max (65 - age_years) 5 / 4) * (5 / 10)
             + (if savings_now \<ge> monthly_expenses * 3 then 7 else 3) * (3 / 10)
             + (case map_of risk_score_map (Str t) of None \<Rightarrow> 6 | Some x \<Rightarrow> x) * (2 / 10)
       in Inr (if total_score < 3 then ''very_conservative''
               else if total_score < 5 then ''conservative''
               else if total_score < 7 then ''moderate''
               else if total_score < 85 / 10 then ''aggressive''
               else ''very_aggressive''))))"
  by (simp add: recommend_risk_profile_def get_default_def map_of_setitem
        sum_expenses_setitem startswith_def Let_def)

text \<open>
  Claim C8. Take any profile and set its \<open>risk_tolerance\<close> to Low, Medium and High in
  turn, all other fields (age, savings, expenses) being the same. If the recommendation for
  Low is returned, so are the recommendations for Medium and High, and in the order
  very_conservative, conservative, moderate, aggressive, very_aggressive the one for Low is
  at most the one for Medium, which is at most the one for High.
\<close>

theorem recommendation_monotone:
  assumes "recommend_risk_profile (setitem p ''risk_tolerance'' (Str ''Low'')) = Inr low"
  shows "\<exists>medium high.
     recommend_risk_profile (setitem p ''risk_tolerance'' (Str ''Medium'')) = Inr medium
     \<and> recommend_risk_profile (setitem p ''risk_tolerance'' (Str ''High'')) = Inr high
     \<and> tier_rank low \<le> tier_rank medium \<and> tier_rank medium \<le> tier_rank high"
proof -
  from assms obtain a e s where
    a: "as_num (get_default p ''age'' (Num 35)) = Inr a" and
    e: "sum_expenses p = Inr e" and
    s: "as_num (get_default p ''current_savings'' (Num 0)) = Inr s"
    unfolding recommend_setitem bind_def by (auto split: sum.splits)
  define base where
    "base = min 10 (max (65 - a) 5 / 4) * (5 / 10) + (if s \<ge> e * 3 then 7 else 3) * (3 / 10)"
  define tier :: "real \<Rightarrow> string" where
    "tier = (\<lambda>total_score. if total_score < 3 then ''very_conservative''
               else if total_score < 5 then ''conservative''
               else if total_score < 7 then ''moderate''
               else if total_score < 85 / 10 then ''aggressive''
               else ''very_aggressive'')"
  have r: "recommend_risk_profile (setitem p ''risk_tolerance'' (Str t)) =
      Inr (tier (base + (case map_of risk_score_map (Str t) of None \<Rightarrow> 6 | Some x \<Rightarrow> x)
                          * (2 / 10)))" for t
    unfolding recommend_setitem using a e s by (simp add: bind_def base_def tier_def Let_def)
  have mono: "x \<le> y \<Longrightarrow> tier_rank (tier x) \<le> tier_rank (tier y)" for x y
    by (simp add: tier_def tier_rank_def)
  have l: "low = tier (base + 3 * (2 / 10))"
    using assms r [of "''Low''"] by (simp add: risk_score_map_def)
  have m: "recommend_risk_profile (setitem p ''risk_tolerance'' (Str ''Medium''))
      = Inr (tier (base + 6 * (2 / 10)))"
    using r [of "''Medium''"] by (simp add: risk_score_map_def)
  have h: "recommend_risk_profile (setitem p ''risk_tolerance'' (Str ''High''))
      = Inr (tier (base + 9 * (2 / 10)))"
    using r [of "''High''"] by (simp add: risk_score_map_def)
  have "tier_rank low \<le> tier_rank (tier (base + 6 * (2 / 10)))"
    unfolding l by (rule mono) simp
  moreover have "tier_rank (tier (base + 6 * (2 / 10))) \<le> tier_rank (tier (base + 9 * (2 / 10)))"
    by (rule mono) simp
  ultimately show ?thesis using m h by blast
qed

text \<open>
  The theorem at age 45 with savings below three months of expenses: conservative for Low
  and Medium, moderate for High.
\<close>

theorem recommendation_monotone_witness:
  "recommend_risk_profile
      (setitem [(''age'', Num 45), (''current_savings'', Num 1000),
                (''expense_rent_mortgage'', Num 1500)] ''risk_tolerance'' (Str ''Low''))
     = Inr ''conservative''
   \<and> recommend_risk_profile
      (setitem [(''age'', Num 45), (''current_savings'', Num 1000),
                (''expense_rent_mortgage'', Num 1500)] ''risk_tolerance'' (Str ''Medium''))
     = Inr ''conservative''
   \<and> recommend_risk_profile
      (setitem [(''age'', Num 45), (''current_savings'', Num 1000),
                (''expense_rent_mortgage'', Num 1500)] ''risk_tolerance'' (Str ''High''))
     = Inr ''moderate''"
proof -
  let ?p = "[(''age'', Num 45), (''current_savings'', Num 1000),
                (''expense_rent_mortgage'', Num 1500)]"
  note defs = recommend_risk_profile_def get_default_def bind_def as_num_def
          sum_expenses_def expense_values_def startswith_def risk_score_map_def Let_def
  have low: "recommend_risk_profile (setitem ?p ''risk_tolerance'' (Str ''Low''))
      = Inr ''conservative''"
    by (simp add: defs)
  have med: "recommend_risk_profile (setitem ?p ''risk_tolerance'' (Str ''Medium''))
      = Inr ''conservative''"
    by (simp add: defs)
  have high: "recommend_risk_profile (setitem ?p ''risk_tolerance'' (Str ''High''))
      = Inr ''moderate''"
    by (simp add: defs)
  from recommendation_monotone [OF low] low med high show ?thesis by simp
qed

section \<open>Properties of the path simulator\<close>

lemma month_step_num:
  assumes "get_default prof ''primary_debt_apr'' (Num 15) = Num a"
  shows "\<exists>r x s'. month_step prof start me ig ex i (Num x0, Num s, Num d)
            = Inr (r, (Num x, Num s', Num (debt_step a ex d)))
          \<and> debt r = max 0 (debt_step a ex d) \<and> date r = start + 30 * int i"
  using assms
  by (simp add: month_step_def bind_def as_num_def debt_step_def Let_def)

lemma month_loop_num:
  assumes "get_default prof ''primary_debt_apr'' (Num 15) = Num a"
  shows "\<exists>rows. month_loop prof start me ig ex n i (Num x0, Num s, Num d) = Inr rows
          \<and> length rows = n
          \<and> (\<forall>k<n. debt (rows ! k) = max 0 ((debt_step a ex ^^ Suc k) d)
                    \<and> date (rows ! k) = start + 30 * int (i + k))"
proof (induction n arbitrary: i x0 s d)
  case 0
  show ?case by simp
next
  case (Suc n)
  from month_step_num [OF assms, of start me ig ex i x0 s d] obtain r x s' where
    step: "month_step prof start me ig ex i (Num x0, Num s, Num d)
            = Inr (r, (Num x, Num s', Num (debt_step a ex d)))" and
    r: "debt r = max 0 (debt_step a ex d)" "date r = start + 30 * int i"
    by blast
  from Suc.IH [of "Suc i" x s' "debt_step a ex d"] obtain rows where
    loop: "month_loop prof start me ig ex n (Suc i) (Num x, Num s', Num (debt_step a ex d))
            = Inr rows" and
    len: "length rows = n" and
    each: "\<forall>k<n. debt (rows ! k) = max 0 ((debt_step a ex ^^ Suc k) (debt_step a ex d))
                    \<and> date (rows ! k) = start + 30 * int (Suc i + k)"
    by blast
  have res: "month_loop prof start me ig ex (Suc n) i (Num x0, Num s, Num d) = Inr (r # rows)"
    using step loop by (simp add: bind_def)
  have "debt ((r # rows) ! k) = max 0 ((debt_step a ex ^^ Suc k) d)
        \<and> date ((r # rows) ! k) = start + 30 * int (i + k)" if "k < Suc n" for k
  proof (cases k)
    case 0
    with r show ?thesis by simp
  next
    case (Suc j)
    with that have "j < n" by simp
    with each Suc show ?thesis by (simp add: funpow_swap1)
  qed
  with res len show ?case by simp
qed

lemma debt_step_nonneg: "0 < d \<Longrightarrow> 0 \<le> debt_step a e d"
  by (simp add: debt_step_def Let_def)

lemma debt_step_mono:
  assumes a: "0 \<le> a" and e: "e1 \<le> e2" and d: "d2 \<le> d1"
  shows "debt_step a e2 d2 \<le> debt_step a e1 d1"
proof (cases "0 < d2")
  case False
  show ?thesis
  proof (cases "0 < d1")
    case True
    from False have "debt_step a e2 d2 \<le> 0" by (simp add: debt_step_def)
    with debt_step_nonneg [OF True, of a e1] show ?thesis by linarith
  next
    case False
    with \<open>\<not> 0 < d2\<close> d show ?thesis by (simp add: debt_step_def)
  qed
next
  case True
  with d have pos: "0 < d1" by simp
  define r where "r = a / 100 / 12"
  have r: "0 \<le> r" using a by (simp add: r_def)
  have m: "d2 * r \<le> d1 * r" using d r by (rule mult_right_mono)
  have s1: "debt_step a e1 d1 = d1 + d1 * r - min (max (d1 * (2 / 100)) 25 + e1) (d1 + d1 * r)"
    using pos by (simp add: debt_step_def Let_def r_def)
  have s2: "debt_step a e2 d2 = d2 + d2 * r - min (max (d2 * (2 / 100)) 25 + e2) (d2 + d2 * r)"
    using True by (simp add: debt_step_def Let_def r_def)
  show ?thesis
    unfolding s1 s2 using m d e by (simp add: min_def max_def)
qed

lemma debt_iterate_mono:
  assumes "0 \<le> a" and "e1 \<le> e2"
  shows "(debt_step a e2 ^^ k) d \<le> (debt_step a e1 ^^ k) d"
proof (induction k)
  case 0
  show ?case by simp
next
  case (Suc k)
  show ?case using debt_step_mono [OF assms Suc.IH] by simp
qed

lemma debt_free_index_Some:
  "debt_free_index rows = Some k \<Longrightarrow> k < length rows \<and> debt (rows ! k) \<le> 0"
proof (induction rows arbitrary: k)
  case Nil
  then show ?case by simp
next
  case (Cons r rows)
  then show ?case by (cases "debt r \<le> 0") auto
qed

lemma debt_free_index_first:
  "k < length rows \<Longrightarrow> debt (rows ! k) \<le> 0
     \<Longrightarrow> \<exists>j. debt_free_index rows = Some j \<and> j \<le> k"
proof (induction rows arbitrary: k)
  case Nil
  then show ?case by simp
next
  case (Cons r rows)
  show ?case
  proof (cases "debt r \<le> 0")
    case True
    then show ?thesis by simp
  next
    case False
    with Cons.prems obtain k' where k: "k = Suc k'" by (cases k) auto
    with Cons.prems have "k' < length rows" "debt (rows ! k') \<le> 0" by simp_all
    from Cons.IH [OF this] obtain j where "debt_free_index rows = Some j" "j \<le> k'" by blast
    with False k show ?thesis by simp
  qed
qed

lemma debt_free_month_index:
  "\<forall>k<length rows. date (rows ! k) = start + 30 * int (i + k) \<Longrightarrow>
     debt_free_month rows = map_option (\<lambda>k. start + 30 * int (i + k)) (debt_free_index rows)"
proof (induction rows arbitrary: i)
  case Nil
  show ?case by (simp add: debt_free_month_def)
next
  case (Cons r rows)
  from Cons.prems have r: "date r = start + 30 * int i" by auto
  from Cons.prems have rest: "\<forall>k<length rows. date (rows ! k) = start + 30 * int (Suc i + k)"
    by auto
  have later: "date r \<le> y" if "y \<in> set (map date (filter (\<lambda>r. debt r \<le> 0) rows))" for y
  proof -
    from that obtain x where "x \<in> set rows" "y = date x" by auto
    then obtain k where "k < length rows" "y = date (rows ! k)"
      by (auto simp: in_set_conv_nth)
    with rest r show ?thesis by simp
  qed
  show ?case
  proof (cases "debt r \<le> 0")
    case True
    have "Min (set (date r # map date (filter (\<lambda>r. debt r \<le> 0) rows))) = date r"
      by (rule Min_eqI) (use later in auto)
    with True r show ?thesis by (simp add: debt_free_month_def)
  next
    case False
    have "debt_free_month (r # rows) = debt_free_month rows"
      using False by (simp add: debt_free_month_def)
    with Cons.IH [OF rest] False show ?thesis
      by (simp add: option.map_comp comp_def algebra_simps)
  qed
qed

subsection \<open>The improved path is debt-free no later\<close>

text \<open>
  Claim C3. For every well-formed profile (so the starting debt and the APR are not
  negative, and in particular when both are positive) and every extra debt payment above 0,
  both simulations return a frame with one row for each month of the horizon; in every
  month the recorded debt of the improved path is at most that of the current path; if the
  current path has a first month index with debt at most 0, the improved path has one too
  and it is not larger; and the same holds for the debt-free dates that
  \<open>compare_scenarios\<close> reads off the two frames.
\<close>

theorem improved_debt_free_no_later:
  assumes wf: "well_formed (profile sim)"
    and extra: "0 < param_get params ''extra_debt_payment'' (1 / 10)"
  shows "\<exists>current improved.
     calculate_monthly_results sim ''current'' [] = Inr current
     \<and> calculate_monthly_results sim ''improved'' params = Inr improved
     \<and> length current = months sim \<and> length improved = months sim
     \<and> (\<forall>k<months sim. debt (improved ! k) \<le> debt (current ! k))
     \<and> (\<forall>kc. debt_free_index current = Some kc \<longrightarrow>
           (\<exists>ki. debt_free_index improved = Some ki \<and> ki \<le> kc))
     \<and> (\<forall>dc. debt_free_month current = Some dc \<longrightarrow>
           (\<exists>di. debt_free_month improved = Some di \<and> di \<le> dc))"
proof -
  let ?p = "profile sim"
  from well_formed_income [OF wf] obtain x where
    x: "map_of ?p ''monthly_income'' = Some (Num x)" "0 \<le> x" by blast
  from well_formed_savings [OF wf] obtain s where
    s: "map_of ?p ''current_savings'' = Some (Num s)" by blast
  from well_formed_expenses [OF wf] obtain e where e: "sum_expenses ?p = Inr e" by blast
  from wf obtain d where d: "get_default ?p ''total_debt'' (Num 0) = Num d"
    by (auto simp: well_formed_def optional_nonneg_def nonneg_num_def get_default_def
          split: option.splits pval.splits)
  from wf obtain a where a: "get_default ?p ''primary_debt_apr'' (Num 15) = Num a" "0 \<le> a"
    by (auto simp: well_formed_def optional_nonneg_def nonneg_num_def get_default_def
          split: option.splits pval.splits)
  have "\<exists>ms. (if contains ?p ''monthly_savings''
           then getitem ?p ''monthly_savings''
           else bind (as_num (Num x)) (\<lambda>x. Inr (Num (x - e)))) = Inr ms"
    by (cases "map_of ?p ''monthly_savings''")
      (simp_all add: contains_def getitem_def bind_def as_num_def)
  then obtain ms where ms: "(if contains ?p ''monthly_savings''
           then getitem ?p ''monthly_savings''
           else bind (as_num (Num x)) (\<lambda>x. Inr (Num (x - e)))) = Inr ms"
    by blast
  define ex where "ex = param_get params ''extra_debt_payment'' (1 / 10) * x"
  have ex: "0 \<le> ex" using extra x(2) by (simp add: ex_def)
  let ?start = "current_month sim"
  from month_loop_num [OF a(1), of ?start e "2 / 100" 0 "months sim" 0 x s d]
  obtain cur where
    cur: "month_loop ?p ?start e (2 / 100) 0 (months sim) 0 (Num x, Num s, Num d) = Inr cur"
      "length cur = months sim"
      "\<forall>k<months sim. debt (cur ! k) = max 0 ((debt_step a 0 ^^ Suc k) d)
                    \<and> date (cur ! k) = ?start + 30 * int (0 + k)"
    by blast
  define ig where "ig = param_get params ''income_growth'' (2 / 100)"
  define me where "me = e * (1 - param_get params ''expense_reduction'' (1 / 10))"
  from month_loop_num [OF a(1), of ?start me ig ex "months sim" 0 x s d]
  obtain imp where
    imp: "month_loop ?p ?start me ig ex (months sim) 0 (Num x, Num s, Num d) = Inr imp"
      "length imp = months sim"
      "\<forall>k<months sim. debt (imp ! k) = max 0 ((debt_step a ex ^^ Suc k) d)
                    \<and> date (imp ! k) = ?start + 30 * int (0 + k)"
    by blast
  have rc: "calculate_monthly_results sim ''current'' [] = Inr cur"
    using x s e d ms cur(1)
    by (simp add: calculate_monthly_results_def getitem_def bind_def)
  have ri: "calculate_monthly_results sim ''improved'' params = Inr imp"
    using x s e d ms imp(1)
    by (simp add: calculate_monthly_results_def getitem_def bind_def as_num_def Let_def
          ex_def ig_def me_def)
  have le: "debt (imp ! k) \<le> debt (cur ! k)" if "k < months sim" for k
  proof -
    have "(debt_step a ex ^^ Suc k) d \<le> (debt_step a 0 ^^ Suc k) d"
      by (rule debt_iterate_mono [OF a(2) ex])
    with cur(3) imp(3) that show ?thesis by auto
  qed
  have idx: "\<exists>ki. debt_free_index imp = Some ki \<and> ki \<le> kc"
    if "debt_free_index cur = Some kc" for kc
  proof -
    from debt_free_index_Some [OF that] have "kc < length cur" "debt (cur ! kc) \<le> 0"
      by simp_all
    with le [of kc] cur(2) imp(2) have "kc < length imp" "debt (imp ! kc) \<le> 0"
      by simp_all
    then show ?thesis by (rule debt_free_index_first)
  qed
  have dc: "debt_free_month cur
      = map_option (\<lambda>k. ?start + 30 * int (0 + k)) (debt_free_index cur)"
    by (rule debt_free_month_index) (use cur in simp)
  have di: "debt_free_month imp
      = map_option (\<lambda>k. ?start + 30 * int (0 + k)) (debt_free_index imp)"
    by (rule debt_free_month_index) (use imp in simp)
  have dates: "\<exists>di. debt_free_month imp = Some di \<and> di \<le> dc"
    if "debt_free_month cur = Some dc" for dc
  proof -
    from that dc obtain kc where kc: "debt_free_index cur = Some kc" "dc = ?start + 30 * int kc"
      by auto
    from idx [OF kc(1)] obtain ki where "debt_free_index imp = Some ki" "ki \<le> kc" by blast
    with di kc(2) show ?thesis by simp
  qed
  from rc ri cur(2) imp(2) le idx dates show ?thesis by blast
qed

text \<open>
  The theorem at a debt of 100 at 12 percent on an income of 1000, over one year, with an
  extra payment of a tenth of the income.
\<close>

theorem improved_debt_free_no_later_witness:
  "well_formed
     (profile \<lparr>profile = [(''monthly_income'', Num 1000), (''current_savings'', Num 500),
                  (''expense_rent'', Num 600), (''total_debt'', Num 100),
                  (''primary_debt_apr'', Num 12)],
               simulation_years = 1, current_month = 0\<rparr>)
   \<and> 0 < param_get [(''extra_debt_payment'', 1 / 10)] ''extra_debt_payment'' (1 / 10)
   \<and> (\<exists>current improved.
         calculate_monthly_results
           \<lparr>profile = [(''monthly_income'', Num 1000), (''current_savings'', Num 500),
                  (''expense_rent'', Num 600), (''total_debt'', Num 100),
                  (''primary_debt_apr'', Num 12)],
               simulation_years = 1, current_month = 0\<rparr> ''current'' [] = Inr current
         \<and> calculate_monthly_results
           \<lparr>profile = [(''monthly_income'', Num 1000), (''current_savings'', Num 500),
                  (''expense_rent'', Num 600), (''total_debt'', Num 100),
                  (''primary_debt_apr'', Num 12)],
               simulation_years = 1, current_month = 0\<rparr> ''improved''
             [(''extra_debt_payment'', 1 / 10)] = Inr improved
         \<and> length current = 12 \<and> length improved = 12
         \<and> (\<forall>kc. debt_free_index current = Some kc \<longrightarrow>
               (\<exists>ki. debt_free_index improved = Some ki \<and> ki \<le> kc)))"
proof -
  let ?sim = "\<lparr>profile = [(''monthly_income'', Num 1000), (''current_savings'', Num 500),
                  (''expense_rent'', Num 600), (''total_debt'', Num 100),
                  (''primary_debt_apr'', Num 12)],
               simulation_years = 1, current_month = 0\<rparr>"
  have wf: "well_formed (profile ?sim)"
    by (simp add: well_formed_def nonneg_num_def optional_nonneg_def expense_values_def
          startswith_def)
  have extra: "0 < param_get [(''extra_debt_payment'', 1 / 10)] ''extra_debt_payment'' (1 / 10)"
    by (simp add: param_get_def)
  have m: "months ?sim = 12"
    by (simp add: months_def)
  from improved_debt_free_no_later [OF wf extra] wf extra show ?thesis
    unfolding m by blast
qed

section \<open>Properties of simulate_investment_path\<close>

lemma setitem_new: "key \<notin> fst ` set d \<Longrightarrow> setitem d key v = d @ [(key, v)]"
  by (induction d key v rule: setitem.induct) auto

lemma setitem_middle:
  "key \<notin> fst ` set before \<Longrightarrow>
     setitem (before @ (key, w) # after) key v = before @ (key, v) # after"
  by (induction before) auto

lemma map_of_middle:
  "key \<notin> fst ` set before \<Longrightarrow> map_of (before @ (key, w) # after) key = Some w"
  by (induction before) auto

lemma positive_Cons:
  "positive ((a, w) # rest) = (if w > 0 then (a, w) # positive rest else positive rest)"
  by (simp add: positive_def)

lemma positive_keys: "fst ` set (positive allocation) \<subseteq> fst ` set allocation"
  by (auto simp: positive_def)

lemma initial_values_shape:
  assumes "distinct (map fst allocation)"
    and "fst ` set before \<inter> fst ` set allocation = {}"
  shows "initial_values init allocation before
           = before @ map (\<lambda>(a, w). (a, init * w)) (positive allocation)"
  using assms
proof (induction allocation arbitrary: before)
  case Nil
  show ?case by (simp add: positive_def)
next
  case (Cons item rest)
  obtain a w where item: "item = (a, w)" by (cases item)
  from Cons.prems item have a: "a \<notin> fst ` set before" and d: "distinct (map fst rest)"
    and ar: "a \<notin> fst ` set rest" and br: "fst ` set before \<inter> fst ` set rest = {}"
    by auto
  show ?case
  proof (cases "w > 0")
    case True
    have "fst ` set (before @ [(a, init * w)]) \<inter> fst ` set rest = {}"
      using ar br by auto
    from Cons.IH [OF d this] True a show ?thesis
      by (simp add: item setitem_new positive_Cons)
  next
    case False
    with Cons.IH [OF d br] show ?thesis
      by (simp add: item positive_Cons)
  qed
qed

lemma month_assets_shape:
  assumes "distinct (map fst allocation)"
    and "fst ` set before \<inter> fst ` set allocation = {}"
    and "\<forall>(a, w) \<in> set allocation. w > 0 \<longrightarrow>
           map_of asset_returns a = Some (returns_of a)
           \<and> map_of asset_classes a = Some (class_of a)"
  shows "month_assets i mc asset_returns allocation
           (before @ map (\<lambda>(a, w). (a, val a w)) (positive allocation)) recorded
         = Inr (before @ map (\<lambda>(a, w). (a, val a w * (1 + effective_roi returns_of class_of a i)
                                             + mc * w)) (positive allocation),
                recorded @ map (\<lambda>(a, w). (a, val a w * (1 + effective_roi returns_of class_of a i)
                                             + mc * w)) (positive allocation))"
  using assms
proof (induction allocation arbitrary: before recorded)
  case Nil
  show ?case by (simp add: positive_def)
next
  case (Cons item rest)
  obtain a w where item: "item = (a, w)" by (cases item)
  from Cons.prems item have a: "a \<notin> fst ` set before" and d: "distinct (map fst rest)"
    and ar: "a \<notin> fst ` set rest" and br: "fst ` set before \<inter> fst ` set rest = {}"
    and rest: "\<forall>(a, w) \<in> set rest. w > 0 \<longrightarrow>
           map_of asset_returns a = Some (returns_of a)
           \<and> map_of asset_classes a = Some (class_of a)"
    by auto
  show ?case
  proof (cases "w > 0")
    case True
    with Cons.prems(3) item have look: "map_of asset_returns a = Some (returns_of a)"
      "map_of asset_classes a = Some (class_of a)"
      by auto
    define v' where "v' = val a w * (1 + effective_roi returns_of class_of a i) + mc * w"
    let ?todo = "map (\<lambda>(a, w). (a, val a w)) (positive rest)"
    have disj: "fst ` set (before @ [(a, v')]) \<inter> fst ` set rest = {}"
      using ar br by auto
    have roi: "(if i < length (returns_of a) then Inr (returns_of a ! i)
                else bind (lookup asset_classes a) (\<lambda>c. Inr (monthly_mean (avg_return c))))
               = (Inr (effective_roi returns_of class_of a i) :: error + real)"
      using look by (simp add: effective_roi_def lookup_def bind_def)
    have lr: "lookup asset_returns a = Inr (returns_of a)"
      using look by (simp add: lookup_def)
    have lv: "lookup (before @ (a, val a w) # ?todo) a = Inr (val a w)"
      unfolding lookup_def map_of_middle [OF a] by simp
    have sv: "setitem (before @ (a, val a w) # ?todo) a x = before @ (a, x) # ?todo" for x
      by (rule setitem_middle [OF a])
    have "month_assets i mc asset_returns (item # rest)
            (before @ map (\<lambda>(a, w). (a, val a w)) (positive (item # rest))) recorded
          = month_assets i mc asset_returns rest
              ((before @ [(a, v')]) @ ?todo) (recorded @ [(a, v')])"
      using True roi lr lv sv
      by (simp add: item positive_Cons bind_def v'_def Let_def)
    also note Cons.IH [OF d disj rest, of "recorded @ [(a, v')]"]
    finally show ?thesis
      using True by (simp add: item positive_Cons v'_def)
  next
    case False
    with Cons.IH [OF d br rest, of recorded] show ?thesis
      by (simp add: item positive_Cons)
  qed
qed

lemma investment_loop_shape:
  assumes "distinct (map fst allocation)"
    and "\<forall>(a, w) \<in> set allocation. w > 0 \<longrightarrow>
           map_of asset_returns a = Some (returns_of a)
           \<and> map_of asset_classes a = Some (class_of a)"
  shows "\<exists>rows.
     investment_loop start mc asset_returns allocation n i
         (map (\<lambda>(a, w). (a, asset_value (effective_roi returns_of class_of) mc init a w i))
            (positive allocation)) = Inr rows
     \<and> length rows = n
     \<and> (\<forall>k<n. asset_values (rows ! k)
                 = map (\<lambda>(a, w). (a, asset_value (effective_roi returns_of class_of) mc init a w
                                       (Suc (i + k)))) (positive allocation)
             \<and> total_value (rows ! k) = sum_list (map snd (asset_values (rows ! k)))
             \<and> month_date (rows ! k) = start + 30 * int (i + k))"
proof (induction n arbitrary: i)
  case 0
  show ?case by simp
next
  case (Suc n)
  let ?V = "asset_value (effective_roi returns_of class_of) mc init"
  let ?new = "map (\<lambda>(a, w). (a, ?V a w (Suc i))) (positive allocation)"
  have step: "month_assets i mc asset_returns allocation
       (map (\<lambda>(a, w). (a, ?V a w i)) (positive allocation)) [] = Inr (?new, ?new)"
    using month_assets_shape [OF assms(1) _ assms(2), of "[]" i mc "\<lambda>a w. ?V a w i" "[]"]
    by simp
  from Suc.IH [of "Suc i"] obtain rows where
    loop: "investment_loop start mc asset_returns allocation n (Suc i) ?new = Inr rows" and
    len: "length rows = n" and
    each: "\<forall>k<n. asset_values (rows ! k)
                 = map (\<lambda>(a, w). (a, ?V a w (Suc (Suc i + k)))) (positive allocation)
             \<and> total_value (rows ! k) = sum_list (map snd (asset_values (rows ! k)))
             \<and> month_date (rows ! k) = start + 30 * int (Suc i + k)"
    by blast
  let ?r = "\<lparr>month_date = start + 30 * int i, total_value = sum_list (map snd ?new),
             asset_values = ?new\<rparr>"
  have res: "investment_loop start mc asset_returns allocation (Suc n) i
         (map (\<lambda>(a, w). (a, ?V a w i)) (positive allocation)) = Inr (?r # rows)"
    using step loop by (simp add: bind_def Let_def)
  have "asset_values ((?r # rows) ! k)
                 = map (\<lambda>(a, w). (a, ?V a w (Suc (i + k)))) (positive allocation)
             \<and> total_value ((?r # rows) ! k) = sum_list (map snd (asset_values ((?r # rows) ! k)))
             \<and> month_date ((?r # rows) ! k) = start + 30 * int (i + k)" if "k < Suc n" for k
  proof (cases k)
    case 0
    then show ?thesis by simp
  next
    case (Suc j)
    with that have "j < n" by simp
    with each Suc show ?thesis by simp
  qed
  with res len show ?case by (intro exI [of _ "?r # rows"]) simp
qed

lemma generate_all_draws:
  assumes "distinct (map fst allocation)"
    and "\<forall>(a, w) \<in> set allocation. w > 0 \<longrightarrow> map_of asset_classes a \<noteq> None"
  shows "\<exists>asset_returns g'.
     generate_all normal n allocation g before = Inr (asset_returns, g')
     \<and> (\<forall>(a, w) \<in> set allocation. w > 0 \<longrightarrow>
           (\<exists>ga c. map_of asset_classes a = Some c
              \<and> map_of asset_returns a
                  = Some (fst (normal ga ((1 + avg_return c) powr (1 / 12) - 1)
                                 (volatility c / sqrt 12) n))))
     \<and> (\<forall>a. a \<notin> fst ` set allocation \<longrightarrow> map_of asset_returns a = map_of before a)"
  using assms
proof (induction allocation arbitrary: g before)
  case Nil
  show ?case by simp
next
  case (Cons item rest)
  obtain a w where item: "item = (a, w)" by (cases item)
  from Cons.prems item have d: "distinct (map fst rest)" and ar: "a \<notin> fst ` set rest"
    and rest: "\<forall>(a, w) \<in> set rest. w > 0 \<longrightarrow> map_of asset_classes a \<noteq> None"
    by auto
  show ?case
  proof (cases "w > 0")
    case True
    with Cons.prems(2) item obtain c where c: "map_of asset_classes a = Some c" by auto
    define drawn where
      "drawn = normal g ((1 + avg_return c) powr (1 / 12) - 1) (volatility c / sqrt 12) n"
    have gen: "generate_monthly_returns normal g a n = Inr drawn"
      using c by (simp add: generate_monthly_returns_def lookup_def bind_def Let_def
            monthly_mean_def drawn_def)
    from Cons.IH [OF d rest, of "snd drawn" "setitem before a (fst drawn)"]
    obtain asset_returns g' where
      run: "generate_all normal n rest (snd drawn) (setitem before a (fst drawn))
              = Inr (asset_returns, g')" and
      each: "\<forall>(a, w) \<in> set rest. w > 0 \<longrightarrow>
           (\<exists>ga c. map_of asset_classes a = Some c
              \<and> map_of asset_returns a
                  = Some (fst (normal ga ((1 + avg_return c) powr (1 / 12) - 1)
                                 (volatility c / sqrt 12) n)))" and
      other: "\<forall>b. b \<notin> fst ` set rest \<longrightarrow>
                 map_of asset_returns b = map_of (setitem before a (fst drawn)) b"
      by blast
    have res: "generate_all normal n (item # rest) g before = Inr (asset_returns, g')"
      using True gen run by (cases drawn) (simp add: item bind_def)
    have here: "map_of asset_returns a = Some (fst drawn)"
      using other ar by (simp add: map_of_setitem)
    have "\<exists>ga c. map_of asset_classes a = Some c
              \<and> map_of asset_returns a
                  = Some (fst (normal ga ((1 + avg_return c) powr (1 / 12) - 1)
                                 (volatility c / sqrt 12) n))"
      using here c unfolding drawn_def by blast
    moreover have "\<forall>b. b \<notin> fst ` set (item # rest) \<longrightarrow> map_of asset_returns b = map_of before b"
      using other by (simp add: item map_of_setitem)
    ultimately show ?thesis
      using res each by (auto simp: item)
  next
    case False
    from Cons.IH [OF d rest, of g before] obtain asset_returns g' where
      run: "generate_all normal n rest g before = Inr (asset_returns, g')" and
      each: "\<forall>(a, w) \<in> set rest. w > 0 \<longrightarrow>
           (\<exists>ga c. map_of asset_classes a = Some c
              \<and> map_of asset_returns a
                  = Some (fst (normal ga ((1 + avg_return c) powr (1 / 12) - 1)
                                 (volatility c / sqrt 12) n)))" and
      other: "\<forall>b. b \<notin> fst ` set rest \<longrightarrow> map_of asset_returns b = map_of before b"
      by blast
    show ?thesis
      using False run each other by (auto simp: item)
  qed
qed

lemma risk_profiles_catalog:
  assumes "map_of risk_profiles risk_profile = Some allocation"
  shows "distinct (map fst allocation)
     \<and> (\<forall>(a, w) \<in> set allocation. 0 \<le> w \<and> map_of asset_classes a \<noteq> None)"
  using assms
  by (auto simp: risk_profiles_def asset_classes_def split: if_splits)

lemma map_of_map_values:
  "distinct (map fst xs) \<Longrightarrow> (a, w) \<in> set xs
     \<Longrightarrow> map_of (map (\<lambda>(a, w). (a, f a w)) xs) a = Some (f a w)"
proof (induction xs)
  case Nil
  then show ?case by simp
next
  case (Cons x xs)
  then show ?case by (cases x) (auto simp: rev_image_eqI)
qed

lemma distinct_positive: "distinct (map fst allocation) \<Longrightarrow> distinct (map fst (positive allocation))"
  by (simp add: positive_def distinct_map_filter)

lemma simulate_shape:
  assumes rp: "map_of risk_profiles risk_profile = Some allocation"
  shows "\<exists>asset_returns g' rows returns_of class_of.
     generate_all normal (months sim) allocation g [] = Inr (asset_returns, g')
     \<and> simulate_investment_path normal g sim risk_profile mc init = Inr (rows, g')
     \<and> length rows = months sim
     \<and> (\<forall>(a, w) \<in> set allocation. w > 0 \<longrightarrow>
           map_of asset_returns a = Some (returns_of a)
           \<and> map_of asset_classes a = Some (class_of a)
           \<and> (\<exists>ga. returns_of a
                  = fst (normal ga ((1 + avg_return (class_of a)) powr (1 / 12) - 1)
                           (volatility (class_of a) / sqrt 12) (months sim))))
     \<and> (\<forall>k<months sim.
           asset_values (rows ! k)
             = map (\<lambda>(a, w). (a, asset_value (effective_roi returns_of class_of) mc init a w
                                   (Suc k))) (positive allocation)
           \<and> total_value (rows ! k) = sum_list (map snd (asset_values (rows ! k)))
           \<and> month_date (rows ! k) = current_month sim + 30 * int k)"
proof -
  from risk_profiles_catalog [OF rp] have d: "distinct (map fst allocation)"
    and cat: "\<forall>(a, w) \<in> set allocation. w > 0 \<longrightarrow> map_of asset_classes a \<noteq> None"
    by auto
  from generate_all_draws [OF d cat, where normal = normal and n = "months sim" and g = g
      and before = "[]"]
  obtain asset_returns g' where
    gen: "generate_all normal (months sim) allocation g [] = Inr (asset_returns, g')" and
    draws: "\<forall>(a, w) \<in> set allocation. w > 0 \<longrightarrow>
           (\<exists>ga c. map_of asset_classes a = Some c
              \<and> map_of asset_returns a
                  = Some (fst (normal ga ((1 + avg_return c) powr (1 / 12) - 1)
                                 (volatility c / sqrt 12) (months sim))))"
    by blast
  define returns_of where "returns_of = (\<lambda>a. the (map_of asset_returns a))"
  define class_of where "class_of = (\<lambda>a. the (map_of asset_classes a))"
  have known: "\<forall>(a, w) \<in> set allocation. w > 0 \<longrightarrow>
           map_of asset_returns a = Some (returns_of a)
           \<and> map_of asset_classes a = Some (class_of a)
           \<and> (\<exists>ga. returns_of a
                  = fst (normal ga ((1 + avg_return (class_of a)) powr (1 / 12) - 1)
                           (volatility (class_of a) / sqrt 12) (months sim)))"
    using draws unfolding returns_of_def class_of_def by fastforce
  then have known': "\<forall>(a, w) \<in> set allocation. w > 0 \<longrightarrow>
           map_of asset_returns a = Some (returns_of a)
           \<and> map_of asset_classes a = Some (class_of a)"
    by fastforce
  have init: "initial_values init allocation []
      = map (\<lambda>(a, w). (a, asset_value (effective_roi returns_of class_of) mc init a w 0))
          (positive allocation)"
    using initial_values_shape [OF d, where before = "[]" and init = init] by simp
  from investment_loop_shape [OF d known', where start = "current_month sim" and mc = mc
      and init = init and n = "months sim" and i = 0]
  obtain rows where
    loop: "investment_loop (current_month sim) mc asset_returns allocation (months sim) 0
         (map (\<lambda>(a, w). (a, asset_value (effective_roi returns_of class_of) mc init a w 0))
            (positive allocation)) = Inr rows" and
    len: "length rows = months sim" and
    each: "\<forall>k<months sim. asset_values (rows ! k)
                 = map (\<lambda>(a, w). (a, asset_value (effective_roi returns_of class_of) mc init a w
                                       (Suc (0 + k)))) (positive allocation)
             \<and> total_value (rows ! k) = sum_list (map snd (asset_values (rows ! k)))
             \<and> month_date (rows ! k) = current_month sim + 30 * int (0 + k)"
    by blast
  have sim: "simulate_investment_path normal g sim risk_profile mc init = Inr (rows, g')"
    using rp gen loop by (simp add: simulate_investment_path_def bind_def init Let_def)
  from gen sim len known each show ?thesis
    by (intro exI [of _ asset_returns] exI [of _ g'] exI [of _ rows] exI [of _ returns_of]
          exI [of _ class_of]) simp
qed

subsection \<open>Return parameters and the recurrence of the asset values\<close>

text \<open>
  Claim C7. Let the sampler return as many samples as it is asked for, let the risk
  profile be one of the catalog and let the asset have a nonzero weight in its allocation.
  Then \<open>simulate_investment_path\<close> returns a frame with one row for each month; the
  returns used for the asset are the samples drawn with location
  \<open>(1 + avg_return) powr (1 / 12) - 1\<close> and scale \<open>volatility / sqrt 12\<close>, which
  are the mean and the standard deviation of the normal distribution that is sampled; and
  the recorded values of the asset satisfy
  \<open>value (t + 1) = value t * (1 + returns ! t) + monthly_contribution * weight\<close> for
  every month \<open>t\<close> of the horizon, where \<open>value (t + 1)\<close> is the entry of row \<open>t\<close>
  and \<open>value 0 = initial_investment * weight\<close> is the value before the first month.
\<close>

theorem asset_value_recurrence:
  assumes contract: "\<And>g loc scale size. length (fst (normal g loc scale size)) = size"
    and rp: "map_of risk_profiles risk_profile = Some allocation"
    and w: "map_of allocation asset = Some weight" "weight \<noteq> 0"
  shows "\<exists>asset_returns rows g' ga c returns value.
      generate_all normal (months sim) allocation g [] = Inr (asset_returns, g')
      \<and> simulate_investment_path normal g sim risk_profile monthly_contribution
            initial_investment = Inr (rows, g')
      \<and> length rows = months sim
      \<and> map_of asset_classes asset = Some c
      \<and> map_of asset_returns asset = Some returns
      \<and> returns = fst (normal ga ((1 + avg_return c) powr (1 / 12) - 1)
                          (volatility c / sqrt 12) (months sim))
      \<and> value 0 = initial_investment * weight
      \<and> (\<forall>t<months sim.
            map_of (asset_values (rows ! t)) asset = Some (value (Suc t))
            \<and> value (Suc t) = value t * (1 + returns ! t) + monthly_contribution * weight)"
proof -
  from risk_profiles_catalog [OF rp] have d: "distinct (map fst allocation)"
    and nonneg: "\<forall>(a, w) \<in> set allocation. 0 \<le> w"
    by auto
  from w(1) have mem: "(asset, weight) \<in> set allocation" by (rule map_of_SomeD)
  with nonneg w(2) have pos: "weight > 0" by fastforce
  with mem have memp: "(asset, weight) \<in> set (positive allocation)"
    by (simp add: positive_def)
  from simulate_shape [OF rp, where normal = normal and sim = sim and g = g
      and mc = monthly_contribution and init = initial_investment]
  obtain asset_returns g' rows returns_of class_of where
    gen: "generate_all normal (months sim) allocation g [] = Inr (asset_returns, g')" and
    sim: "simulate_investment_path normal g sim risk_profile monthly_contribution
            initial_investment = Inr (rows, g')" and
    len: "length rows = months sim" and
    known: "\<forall>(a, w) \<in> set allocation. w > 0 \<longrightarrow>
           map_of asset_returns a = Some (returns_of a)
           \<and> map_of asset_classes a = Some (class_of a)
           \<and> (\<exists>ga. returns_of a
                  = fst (normal ga ((1 + avg_return (class_of a)) powr (1 / 12) - 1)
                           (volatility (class_of a) / sqrt 12) (months sim)))" and
    each: "\<forall>k<months sim.
           asset_values (rows ! k)
             = map (\<lambda>(a, w). (a, asset_value (effective_roi returns_of class_of)
                                   monthly_contribution initial_investment a w (Suc k)))
                 (positive allocation)
           \<and> total_value (rows ! k) = sum_list (map snd (asset_values (rows ! k)))
           \<and> month_date (rows ! k) = current_month sim + 30 * int k"
    by blast
  from known mem pos obtain ga where
    r: "map_of asset_returns asset = Some (returns_of asset)" and
    c: "map_of asset_classes asset = Some (class_of asset)" and
    ga: "returns_of asset
           = fst (normal ga ((1 + avg_return (class_of asset)) powr (1 / 12) - 1)
                    (volatility (class_of asset) / sqrt 12) (months sim))"
    by fastforce
  have lenr: "length (returns_of asset) = months sim"
    unfolding ga by (rule contract)
  define "value" where
    "value = asset_value (effective_roi returns_of class_of) monthly_contribution
               initial_investment asset weight"
  have v0: "value 0 = initial_investment * weight"
    by (simp add: value_def)
  have step: "map_of (asset_values (rows ! t)) asset = Some (value (Suc t))
            \<and> value (Suc t) = value t * (1 + returns_of asset ! t)
                                + monthly_contribution * weight" if "t < months sim" for t
  proof -
    from each that have "asset_values (rows ! t)
             = map (\<lambda>(a, w). (a, asset_value (effective_roi returns_of class_of)
                                   monthly_contribution initial_investment a w (Suc t)))
                 (positive allocation)"
      by simp
    then have "map_of (asset_values (rows ! t)) asset = Some (value (Suc t))"
      using map_of_map_values [OF distinct_positive [OF d] memp] by (simp add: value_def)
    moreover have "effective_roi returns_of class_of asset t = returns_of asset ! t"
      using that lenr by (simp add: effective_roi_def)
    ultimately show ?thesis by (simp add: value_def)
  qed
  from gen sim len c r ga v0 step show ?thesis by blast
qed

text \<open>
  The theorem for the bonds of the moderate profile over one year, with a sampler that
  returns the location every time.
\<close>

theorem asset_value_recurrence_witness:
  "\<exists>rows g' v.
     simulate_investment_path (\<lambda>g loc scale size. (replicate size loc, g)) (0::nat)
         \<lparr>profile = [], simulation_years = 1, current_month = 0\<rparr> ''moderate'' 500 10000
       = Inr (rows, g')
     \<and> length rows = 12
     \<and> v 0 = 10000 * (30 / 100)
     \<and> (\<forall>t<12. map_of (asset_values (rows ! t)) ''bonds'' = Some (v (Suc t)))"
proof -
  let ?normal = "\<lambda>(g::nat) (loc::real) (scale::real) size. (replicate size loc, g)"
  let ?sim = "\<lparr>profile = [], simulation_years = 1, current_month = 0\<rparr>"
  let ?allocation = "[(''savings_account'', 20 / 100), (''bonds'', 30 / 100),
      (''index_funds'', 40 / 100), (''stocks'', 10 / 100), (''crypto'', 0 :: real)]"
  have contract: "\<And>g loc scale size. length (fst (?normal g loc scale size)) = size"
    by simp
  have rp: "map_of risk_profiles ''moderate'' = Some ?allocation"
    by (simp add: risk_profiles_def)
  have w: "map_of ?allocation ''bonds'' = Some (30 / 100)" "(30 / 100 :: real) \<noteq> 0"
    by simp_all
  have m: "months ?sim = 12"
    by (simp add: months_def)
  from asset_value_recurrence [of ?normal, OF contract rp w, of ?sim 0 500 10000]
  show ?thesis unfolding m by blast
qed

subsection \<open>The total is the sum of the asset values\<close>

text \<open>
  Claim C10. For every risk profile of the catalog, \<open>simulate_investment_path\<close>
  returns a frame with one row for each month, and in every row the asset columns are those
  of the asset classes with a nonzero weight and the recorded total value is the sum of the
  values recorded for them in the same row.
\<close>

theorem total_value_is_sum:
  assumes rp: "map_of risk_profiles risk_profile = Some allocation"
  shows "\<exists>rows g'.
      simulate_investment_path normal g sim risk_profile monthly_contribution
            initial_investment = Inr (rows, g')
      \<and> length rows = months sim
      \<and> (\<forall>t<months sim.
            map fst (asset_values (rows ! t))
              = map fst (filter (\<lambda>(asset, weight). weight \<noteq> 0) allocation)
            \<and> total_value (rows ! t)
                = (\<Sum>(asset, v) \<leftarrow> asset_values (rows ! t). v))"
proof -
  from risk_profiles_catalog [OF rp] have nonneg: "\<forall>(a, w) \<in> set allocation. 0 \<le> w"
    by auto
  have same: "filter (\<lambda>(asset, weight). weight \<noteq> 0) allocation = positive allocation"
    unfolding positive_def using nonneg by (intro filter_cong) auto
  from simulate_shape [OF rp, where normal = normal and sim = sim and g = g
      and mc = monthly_contribution and init = initial_investment]
  obtain asset_returns g' rows returns_of class_of where
    sim: "simulate_investment_path normal g sim risk_profile monthly_contribution
            initial_investment = Inr (rows, g')" and
    len: "length rows = months sim" and
    each: "\<forall>k<months sim.
           asset_values (rows ! k)
             = map (\<lambda>(a, w). (a, asset_value (effective_roi returns_of class_of)
                                   monthly_contribution initial_investment a w (Suc k)))
                 (positive allocation)
           \<and> total_value (rows ! k) = sum_list (map snd (asset_values (rows ! k)))
           \<and> month_date (rows ! k) = current_month sim + 30 * int k"
    by blast
  have "map fst (asset_values (rows ! t)) = map fst (filter (\<lambda>(asset, weight). weight \<noteq> 0) allocation)
        \<and> total_value (rows ! t) = (\<Sum>(asset, v) \<leftarrow> asset_values (rows ! t). v)"
    if "t < months sim" for t
  proof -
    from each that have av: "asset_values (rows ! t)
             = map (\<lambda>(a, w). (a, asset_value (effective_roi returns_of class_of)
                                   monthly_contribution initial_investment a w (Suc t)))
                 (positive allocation)"
      and tv: "total_value (rows ! t) = sum_list (map snd (asset_values (rows ! t)))"
      by simp_all
    have "map fst (asset_values (rows ! t)) = map fst (positive allocation)"
      unfolding av by (simp add: comp_def case_prod_unfold)
    moreover have "(\<Sum>(asset, v) \<leftarrow> asset_values (rows ! t). v)
        = sum_list (map snd (asset_values (rows ! t)))"
      by (simp add: case_prod_unfold)
    ultimately show ?thesis using tv same by simp
  qed
  with sim len show ?thesis by blast
qed

text \<open>The theorem at the first month of the conservative profile over one year.\<close>

theorem total_value_is_sum_witness:
  "\<exists>rows g'.
     simulate_investment_path (\<lambda>g loc scale size. (replicate size loc, g)) (0::nat)
         \<lparr>profile = [], simulation_years = 1, current_month = 0\<rparr> ''conservative'' 500 10000
       = Inr (rows, g')
     \<and> length rows = 12
     \<and> map fst (asset_values (rows ! 0)) = [''savings_account'', ''bonds'', ''index_funds'']
     \<and> total_value (rows ! 0) = (\<Sum>(asset, v) \<leftarrow> asset_values (rows ! 0). v)"
proof -
  let ?normal = "\<lambda>(g::nat) (loc::real) (scale::real) size. (replicate size loc, g)"
  let ?sim = "\<lparr>profile = [], simulation_years = 1, current_month = 0\<rparr>"
  let ?allocation = "[(''savings_account'', 40 / 100), (''bonds'', 40 / 100),
      (''index_funds'', 20 / 100), (''stocks'', 0), (''crypto'', 0 :: real)]"
  have rp: "map_of risk_profiles ''conservative'' = Some ?allocation"
    by (simp add: risk_profiles_def)
  have m: "months ?sim = 12"
    by (simp add: months_def)
  from total_value_is_sum [OF rp, of ?normal 0 ?sim 500 10000]
  obtain rows g' where
    "simulate_investment_path ?normal 0 ?sim ''conservative'' 500 10000 = Inr (rows, g')"
    "length rows = 12"
    "\<forall>t<12. map fst (asset_values (rows ! t))
              = map fst (filter (\<lambda>(asset, weight). weight \<noteq> 0) ?allocation)
            \<and> total_value (rows ! t) = (\<Sum>(asset, v) \<leftarrow> asset_values (rows ! t). v)"
    unfolding m by blast
  then show ?thesis by (intro exI [of _ rows] exI [of _ g']) simp
qed

end
